theory Spec2Isabelle
  imports Complex_Main "HOL-Library.Sublist" "HOL-Library.AList"
begin

section \<open>Data model\<close>

text \<open>
  A cell of a table is either null (pandas' NaN/None, what \<open>isnull\<close> reports),
  a text value, or a value of some other type (number, date, boolean), kept abstract.
\<close>

datatype 'v cell = NaN | Text string | Val 'v

text \<open>
  A DataFrame: the column labels and the rows in order. \<open>len(df)\<close> is the number of rows.
\<close>

record 'v table =
  col_names :: "string list"
  rows :: "'v cell list list"

definition len :: "'v table \<Rightarrow> nat" where
  "len df = length (rows df)"

text \<open>\<open>df.empty\<close>: true when any axis has length zero.\<close>

definition empty_df :: "'v table \<Rightarrow> bool" where
  "empty_df df = (rows df = [] \<or> col_names df = [])"

text \<open>\<open>df.fillna("")\<close>: every null cell becomes the empty text.\<close>

definition fillna_cell :: "'v cell \<Rightarrow> 'v cell" where
  "fillna_cell c = (case c of NaN \<Rightarrow> Text '''' | _ \<Rightarrow> c)"

definition fillna :: "'v table \<Rightarrow> 'v table" where
  "fillna df = df\<lparr>rows := map (map fillna_cell) (rows df)\<rparr>"

text \<open>
  The exceptions the core can meet, by the place that raises them. \<open>ReadFailure msg\<close> is
  any exception raised by \<open>pd.read_excel\<close>, with its message; the others are raised by the
  code itself or by the interpreter while running it.
\<close>

datatype cause =
    ReadFailure string
  | NoSheetsRead
  | UnsupportedFormat string
  | RangeStepZero
  | UnboundLocalError string
  | NotCallable string

text \<open>
  Both public operations run inside \<open>try ... except Exception as e\<close> and re-raise
  \<open>Exception(f"Error converting Excel file: {str(e)}")\<close>, respectively
  \<open>Exception(f"Error converting Excel file to chunks: {str(e)}")\<close>; the exception caught
  is kept as the cause.
\<close>

datatype exn = ErrorConverting cause | ErrorConvertingChunks cause

section \<open>utils.chunk_df\<close>

text \<open>
  Python's \<open>range(start, stop, step)\<close> for a step other than zero (a zero step raises
  \<open>ValueError\<close>, which the callers below handle before calling this function).
\<close>

function py_range :: "int \<Rightarrow> int \<Rightarrow> int \<Rightarrow> int list" where
  "py_range i stop step =
     (if 0 < step \<and> i < stop then i # py_range (i + step) stop step
      else if step < 0 \<and> stop < i then i # py_range (i + step) stop step
      else [])"
  by pat_completeness auto
termination
  by (relation "measure (\<lambda>(i, stop, step). nat (if 0 < step then stop - i else i - stop))") auto

declare py_range.simps [simp del]

text \<open>
  Python's slice \<open>xs[i:j]\<close>: a negative bound counts from the end, and both bounds are
  clipped to the length.
\<close>

definition slice_bound :: "nat \<Rightarrow> int \<Rightarrow> nat" where
  "slice_bound n k = (if k < 0 then nat (max 0 (int n + k)) else min (nat k) n)"

definition py_slice :: "'a list \<Rightarrow> int \<Rightarrow> int \<Rightarrow> 'a list" where
  "py_slice xs i j =
     (let lo = slice_bound (length xs) i; hi = slice_bound (length xs) j
      in take (hi - lo) (drop lo xs))"

text \<open>\<open>df.iloc[i:j]\<close>: the same columns, the rows of the slice.\<close>

definition iloc :: "'v table \<Rightarrow> int \<Rightarrow> int \<Rightarrow> 'v table" where
  "iloc df i j = df\<lparr>rows := py_slice (rows df) i j\<rparr>"

text \<open>
  \<^verbatim>\<open>
  def chunk_df(df, chunk_size=5000):
      if len(df) <= chunk_size:
          return [df]
      chunks = []
      for i in range(0, len(df), chunk_size):
          chunk = df.iloc[i:i + chunk_size]
          chunks.append(chunk)
      return chunks
  \<close>
  \<open>chunk_size\<close> is a Python integer and may be zero or negative; \<open>range\<close> raises
  \<open>ValueError\<close> when its step is zero.
\<close>

definition chunk_df :: "'v table \<Rightarrow> int \<Rightarrow> cause + 'v table list" where
  "chunk_df df chunk_size =
     (if int (len df) \<le> chunk_size then Inr [df]
      else if chunk_size = 0 then Inl RangeStepZero
      else Inr (map (\<lambda>i. iloc df i (i + chunk_size)) (py_range 0 (int (len df)) chunk_size)))"

section \<open>Strings\<close>

definition newline :: string where
  "newline = [CHR 0x0A]"

text \<open>Python's \<open>sep.join(xs)\<close>.\<close>

fun join :: "string \<Rightarrow> string list \<Rightarrow> string" where
  "join sep [] = []"
| "join sep [x] = x"
| "join sep (x # y # ys) = x @ sep @ join sep (y # ys)"

text \<open>
  Python's \<open>s.replace(old, new)\<close>: the text is scanned from the left, every occurrence of
  \<open>old\<close> found is replaced and the scan goes on behind it. For an empty \<open>old\<close> Python
  puts \<open>new\<close> in front of every character and at the end.
\<close>

function replace_scan :: "string \<Rightarrow> string \<Rightarrow> string \<Rightarrow> string" where
  "replace_scan old new [] = []"
| "replace_scan old new (c # cs) =
     (if old \<noteq> [] \<and> prefix old (c # cs)
      then new @ replace_scan old new (drop (length old) (c # cs))
      else c # replace_scan old new cs)"
  by pat_completeness auto
termination
  by (relation "measure (\<lambda>(old, new, s). length s)") auto

definition py_replace :: "string \<Rightarrow> string \<Rightarrow> string \<Rightarrow> string" where
  "py_replace s old new =
     (if old = [] then new @ concat (map (\<lambda>c. c # new) s) else replace_scan old new s)"

text \<open>
  Python's \<open>s.lower()\<close>. A text is held as its bytes in UTF-8. On a text of ASCII
  characters \<open>lower\<close> maps the letters \<open>A\<close> to \<open>Z\<close> to \<open>a\<close> to \<open>z\<close> and keeps every
  other character. On a text with a character outside ASCII it follows the Unicode
  tables (the Kelvin sign U+212A, for one, becomes the letter \<open>k\<close>); that part is the
  parameter \<open>unicode_lower\<close> of the library below.
\<close>

definition lower_char :: "char \<Rightarrow> char" where
  "lower_char c =
     (case map_of (zip ''ABCDEFGHIJKLMNOPQRSTUVWXYZ'' ''abcdefghijklmnopqrstuvwxyz'') c of
        Some l \<Rightarrow> l
      | None \<Rightarrow> c)"

definition is_ascii :: "string \<Rightarrow> bool" where
  "is_ascii s = list_all (\<lambda>c. \<not> digit7 c) s"

text \<open>Decimal rendering of a number, as \<open>str(n)\<close> and \<open>f"{n}"\<close> give it.\<close>

fun str_nat :: "nat \<Rightarrow> string" where
  "str_nat n =
     (if n < 10 then [''0123456789'' ! n]
      else str_nat (n div 10) @ [''0123456789'' ! (n mod 10)])"

declare str_nat.simps [simp del]

text \<open>The format \<open>f"{n:,}"\<close>: a comma before every group of three digits.\<close>

function commas :: "string \<Rightarrow> string" where
  "commas ds =
     (if length ds \<le> 3 then ds
      else commas (take (length ds - 3) ds) @ '','' @ drop (length ds - 3) ds)"
  by pat_completeness auto
termination
  by (relation "measure length") auto

declare commas.simps [simp del]

section \<open>utils.format_prompt\<close>

text \<open>
  \<^verbatim>\<open>
  def format_prompt(data_text, prompt_template="Analyze this data: [formatted_data]"):
      return prompt_template.replace("[formatted_data]", data_text)
  \<close>
\<close>

definition placeholder :: string where
  "placeholder = ''[formatted_data]''"

definition format_prompt :: "string \<Rightarrow> string \<Rightarrow> string" where
  "format_prompt data_text prompt_template = py_replace prompt_template placeholder data_text"

definition default_template :: string where
  "default_template = ''Analyze this data: [formatted_data]''"

section \<open>The library\<close>

text \<open>
  What the code asks of pandas, of Python's float formatting and of the Unicode tables is
  a parameter of the model: the three renderings of a table, the dtype labels, the memory
  estimate and its rendering in kilobytes, the numeric statistics, and the lowercasing of
  a text that is not all ASCII.
  \<^item> \<open>to_csv\<close> is \<open>df.to_csv(index=False, sep=',')\<close>;
  \<^item> \<open>to_json\<close> is \<open>df.to_json(orient='records', indent=2, force_ascii=False)\<close>;
  \<^item> \<open>to_markdown\<close> is \<open>df.to_markdown(index=False)\<close>;
  \<^item> \<open>dtypes\<close> is \<open>df.dtypes.to_dict()\<close>, each dtype as \<open>str\<close> gives it;
  \<^item> \<open>memory_usage\<close> is \<open>df.memory_usage(deep=True).sum()\<close>, and \<open>kb_2f b\<close> is
    \<open>f"{b / 1024:.2f}"\<close>;
  \<^item> \<open>numeric_cols\<close> is \<open>df.select_dtypes(include=['number']).columns\<close>;
  \<^item> \<open>describe\<close> is \<open>df[numeric_cols].describe().to_dict()\<close>, where each statistic is
    \<open>None\<close> when \<open>pd.notna(value)\<close> is false and \<open>f"{value:.4f}"\<close> otherwise;
  \<^item> \<open>unicode_lower s\<close> is \<open>s.lower()\<close> for a text \<open>s\<close> with a character outside ASCII.
\<close>

record 'v pandas =
  to_csv :: "'v table \<Rightarrow> string"
  to_json :: "'v table \<Rightarrow> string"
  to_markdown :: "'v table \<Rightarrow> string"
  dtypes :: "'v table \<Rightarrow> (string \<times> string) list"
  memory_usage :: "'v table \<Rightarrow> nat"
  kb_2f :: "nat \<Rightarrow> string"
  numeric_cols :: "'v table \<Rightarrow> string list"
  describe :: "'v table \<Rightarrow> (string \<times> (string \<times> string option) list) list"
  unicode_lower :: "string \<Rightarrow> string"

definition lower :: "'v pandas \<Rightarrow> string \<Rightarrow> string" where
  "lower lib s = (if is_ascii s then map lower_char s else unicode_lower lib s)"

text \<open>
  The source handle, as \<open>pd.read_excel(file_path, sheet_name=..., engine='openpyxl',
  na_filter=False)\<close> answers for it: \<open>read_all\<close> is the call with \<open>sheet_name=None\<close>
  (every sheet, in the workbook's order), \<open>read_sheet name\<close> the call for one name. A
  failing call gives the message of the exception it raises.
\<close>

record 'v source =
  read_all :: "string + (string \<times> 'v table) list"
  read_sheet :: "string \<Rightarrow> string + 'v table"

text \<open>The \<open>sheet_names\<close> argument: \<open>None\<close>, one name, or a list of names.\<close>

datatype selector = AllSheets | Single string | Names "string list"

text \<open>A Python dict built from its items in order: a key met again keeps its place and
  takes the new value.\<close>

definition dict_of :: "('k \<times> 'a) list \<Rightarrow> ('k \<times> 'a) list" where
  "dict_of items = fold (\<lambda>(k, v). AList.update k v) items []"

section \<open>utils.get_data_summary and utils.format_summary\<close>

text \<open>\<open>df.isnull()\<close> on one cell.\<close>

definition isnull :: "'v cell \<Rightarrow> bool" where
  "isnull c = (case c of NaN \<Rightarrow> True | _ \<Rightarrow> False)"

text \<open>The cell of a row in column \<open>j\<close>; a row too short for the column has no value there.\<close>

definition cell_at :: "'v cell list \<Rightarrow> nat \<Rightarrow> 'v cell" where
  "cell_at r j = (if j < length r then r ! j else NaN)"

text \<open>\<open>df.isnull().sum()\<close> for the column at position \<open>j\<close>.\<close>

definition isnull_sum :: "'v table \<Rightarrow> nat \<Rightarrow> nat" where
  "isnull_sum df j = length (filter (\<lambda>r. isnull (cell_at r j)) (rows df))"

record summary =
  s_rows :: nat
  s_columns :: nat
  s_column_types :: "(string \<times> string) list"
  s_missing_values :: "(string \<times> nat) list"
  s_memory_usage :: nat
  s_numeric_summary :: "(string \<times> (string \<times> string option) list) list option"

text \<open>
  \<^verbatim>\<open>
  def get_data_summary(df):
      summary = {
          "rows": len(df),
          "columns": len(df.columns),
          "column_types": df.dtypes.to_dict(),
          "missing_values": df.isnull().sum().to_dict(),
          "memory_usage": df.memory_usage(deep=True).sum()
      }
      numeric_cols = df.select_dtypes(include=['number']).columns
      if len(numeric_cols) > 0:
          summary["numeric_summary"] = df[numeric_cols].describe().to_dict()
      return summary
  \<close>
\<close>

definition get_data_summary :: "'v pandas \<Rightarrow> 'v table \<Rightarrow> summary" where
  "get_data_summary lib df =
     \<lparr> s_rows = len df,
       s_columns = length (col_names df),
       s_column_types = dtypes lib df,
       s_missing_values = dict_of (map (\<lambda>(j, col). (col, isnull_sum df j)) (enumerate 0 (col_names df))),
       s_memory_usage = memory_usage lib df,
       s_numeric_summary = (if 0 < length (numeric_cols lib df) then Some (describe lib df) else None) \<rparr>"

text \<open>
  \<^verbatim>\<open>
  def format_summary(summary):
      lines = [
          "=== DATA SUMMARY ===",
          f"Rows: {summary['rows']:,}",
          f"Columns: {summary['columns']}",
          f"Memory Usage: {summary['memory_usage'] / 1024:.2f} KB",
          "",
          "Column Types:",
      ]
      for col, dtype in summary['column_types'].items():
          lines.append(f"  {col}: {dtype}")
      lines.append("")
      lines.append("Missing Values:")
      for col, missing in summary['missing_values'].items():
          if missing > 0:
              lines.append(f"  {col}: {missing}")
      if 'numeric_summary' in summary:
          lines.append("")
          lines.append("Numeric Column Statistics:")
          for col, stats in summary['numeric_summary'].items():
              lines.append(f"  {col}:")
              for stat, value in stats.items():
                  if pd.notna(value):
                      lines.append(f"    {stat}: {value:.4f}")
      return "\n".join(lines)
  \<close>
\<close>

definition stat_lines :: "(string \<times> string option) list \<Rightarrow> string list" where
  "stat_lines stats =
     concat (map (\<lambda>(stat, value). case value of None \<Rightarrow> [] | Some v \<Rightarrow> [''    '' @ stat @ '': '' @ v]) stats)"

definition format_summary :: "'v pandas \<Rightarrow> summary \<Rightarrow> string" where
  "format_summary lib summary =
     join newline
       ([''=== DATA SUMMARY ==='',
         ''Rows: '' @ commas (str_nat (s_rows summary)),
         ''Columns: '' @ str_nat (s_columns summary),
         ''Memory Usage: '' @ kb_2f lib (s_memory_usage summary) @ '' KB'',
         '''',
         ''Column Types:'']
        @ map (\<lambda>(col, dtype). ''  '' @ col @ '': '' @ dtype) (s_column_types summary)
        @ ['''', ''Missing Values:'']
        @ map (\<lambda>(col, missing). ''  '' @ col @ '': '' @ str_nat missing)
            (filter (\<lambda>(col, missing). 0 < missing) (s_missing_values summary))
        @ (case s_numeric_summary summary of
             None \<Rightarrow> []
           | Some numeric_summary \<Rightarrow>
               ['''', ''Numeric Column Statistics:'']
               @ concat (map (\<lambda>(col, stats). (''  '' @ col @ '':'') # stat_lines stats) numeric_summary)))"

section \<open>converter: loading the sheets\<close>

text \<open>
  \<^verbatim>\<open>
  if sheet_names is None:
      all_sheets = pd.read_excel(file_path, sheet_name=None, ...)
  elif isinstance(sheet_names, str):
      all_sheets = {sheet_names: pd.read_excel(file_path, sheet_name=sheet_names, ...)}
  else:
      all_sheets = {}
      for sheet in sheet_names:
          try:
              all_sheets[sheet] = pd.read_excel(file_path, sheet_name=sheet, ...)
          except Exception as e:
              print(f"Warning: Could not read sheet '{sheet}': {e}")
  \<close>
  The same text opens both public operations. The state of the loop is the dict
  \<open>all_sheets\<close> and the lines printed so far.
\<close>

definition warning :: "string \<Rightarrow> string \<Rightarrow> string" where
  "warning sheet e = ''Warning: Could not read sheet '' @ [CHR 0x27] @ sheet @ [CHR 0x27] @ '': '' @ e"

fun load_names ::
  "'v source \<Rightarrow> string list \<Rightarrow> (string \<times> 'v table) list \<times> string list
     \<Rightarrow> (string \<times> 'v table) list \<times> string list" where
  "load_names src [] st = st"
| "load_names src (sheet # rest) (all_sheets, printed) =
     (case read_sheet src sheet of
        Inr df \<Rightarrow> load_names src rest (AList.update sheet df all_sheets, printed)
      | Inl e \<Rightarrow> load_names src rest (all_sheets, printed @ [warning sheet e]))"

definition load_sheets ::
  "'v source \<Rightarrow> selector \<Rightarrow> cause + ((string \<times> 'v table) list \<times> string list)" where
  "load_sheets src sheet_names =
     (case sheet_names of
        AllSheets \<Rightarrow>
          (case read_all src of Inl e \<Rightarrow> Inl (ReadFailure e) | Inr all_sheets \<Rightarrow> Inr (all_sheets, []))
      | Single name \<Rightarrow>
          (case read_sheet src name of Inl e \<Rightarrow> Inl (ReadFailure e) | Inr df \<Rightarrow> Inr ([(name, df)], []))
      | Names names \<Rightarrow> Inr (load_names src names ([], [])))"

section \<open>converter.excel_to_formatted_text\<close>

text \<open>The \<open>if/elif/else\<close> on \<open>output_format.lower()\<close>, the same in both operations.\<close>

definition format_dispatch :: "'v pandas \<Rightarrow> string \<Rightarrow> 'v table \<Rightarrow> cause + string" where
  "format_dispatch lib output_format df =
     (if lower lib output_format = ''csv'' then Inr (to_csv lib df)
      else if lower lib output_format = ''json'' then Inr (to_json lib df)
      else if lower lib output_format = ''markdown'' then Inr (to_markdown lib df)
      else Inl (UnsupportedFormat output_format))"

definition sheet_header :: "string \<Rightarrow> string" where
  "sheet_header sheet_name = newline @ ''=== SHEET: '' @ sheet_name @ '' ==='' @ newline"

text \<open>
  \<^verbatim>\<open>
  all_formatted_data = []
  for sheet_name, df in all_sheets.items():
      if df.empty:
          continue
      df = df.fillna("")
      if output_format.lower() == "csv": ...
      else:
          raise ValueError(f"Unsupported output format: {output_format}")
      sheet_header = f"\n=== SHEET: {sheet_name} ===\n"
      all_formatted_data.append(sheet_header + formatted_data)
  \<close>
\<close>

fun format_sheets ::
  "'v pandas \<Rightarrow> string \<Rightarrow> (string \<times> 'v table) list \<Rightarrow> string list \<Rightarrow> cause + string list" where
  "format_sheets lib output_format [] all_formatted_data = Inr all_formatted_data"
| "format_sheets lib output_format ((sheet_name, df) # rest) all_formatted_data =
     (if empty_df df then format_sheets lib output_format rest all_formatted_data
      else case format_dispatch lib output_format (fillna df) of
             Inl e \<Rightarrow> Inl e
           | Inr formatted_data \<Rightarrow>
               format_sheets lib output_format rest
                 (all_formatted_data @ [sheet_header sheet_name @ formatted_data]))"

text \<open>\<open>next((df for df in all_sheets.values() if not df.empty), None)\<close>: the tables of
  \<open>all_sheets\<close> are the loaded ones; \<open>fillna\<close> above rebinds the loop variable only.\<close>

definition first_nonempty :: "(string \<times> 'v table) list \<Rightarrow> 'v table option" where
  "first_nonempty all_sheets = find (\<lambda>df. \<not> empty_df df) (map snd all_sheets)"

text \<open>
  The body of \<open>excel_to_formatted_text\<close> behind the loading, from
  \<open>if not all_sheets: raise ValueError("No sheets could be read from the Excel file")\<close> to
  \<open>return final_output\<close>.
\<close>

definition formatted_text_of ::
  "'v pandas \<Rightarrow> (string \<times> 'v table) list \<Rightarrow> string \<Rightarrow> string \<Rightarrow> bool \<Rightarrow> cause + string" where
  "formatted_text_of lib all_sheets output_format prompt_template include_summary =
     (if all_sheets = [] then Inl NoSheetsRead
      else case format_sheets lib output_format all_sheets [] of
             Inl e \<Rightarrow> Inl e
           | Inr all_formatted_data \<Rightarrow>
               let combined_data = join (newline @ newline) all_formatted_data;
                   combined_data =
                     (if include_summary
                      then (case first_nonempty all_sheets of
                              None \<Rightarrow> combined_data
                            | Some first_df \<Rightarrow>
                                format_summary lib (get_data_summary lib first_df)
                                  @ newline @ newline @ combined_data)
                      else combined_data)
               in Inr (format_prompt combined_data prompt_template))"

text \<open>
  The operation: what it prints and what it returns or raises. Its parameters
  \<open>chunk_size\<close> and \<open>evaluate_formulas\<close> are never read by the body and are left out.
\<close>

definition excel_to_formatted_text ::
  "'v pandas \<Rightarrow> 'v source \<Rightarrow> selector \<Rightarrow> string \<Rightarrow> string \<Rightarrow> bool \<Rightarrow> string list \<times> (exn + string)" where
  "excel_to_formatted_text lib file_path sheet_names output_format prompt_template include_summary =
     (case load_sheets file_path sheet_names of
        Inl e \<Rightarrow> ([], Inl (ErrorConverting e))
      | Inr (all_sheets, printed) \<Rightarrow>
          (printed,
           case formatted_text_of lib all_sheets output_format prompt_template include_summary of
             Inl e \<Rightarrow> Inl (ErrorConverting e)
           | Inr final_output \<Rightarrow> Inr final_output))"

section \<open>converter.excel_to_chunked_text\<close>

text \<open>
  \<^verbatim>\<open>
  chunks = []
  for sheet_name, df in all_sheets.items():
      if df.empty:
          continue
      df = df.fillna("")
      df_chunks = chunk_df(df, chunk_size)
      for i, chunk_df in enumerate(df_chunks):
          if output_format.lower() == "csv": ...
          else:
              raise ValueError(f"Unsupported output format: {output_format}")
          chunk_header = f"\n=== SHEET: {sheet_name} - CHUNK {i+1}/{len(df_chunks)} ===\n"
          chunk_text = chunk_header + formatted_chunk
          final_chunk = format_prompt(chunk_text, prompt_template)
          chunks.append(final_chunk)
  \<close>
  The inner loop binds the name \<open>chunk_df\<close>, so Python compiles \<open>chunk_df\<close> as a local
  variable of the whole function: the call \<open>chunk_df(df, chunk_size)\<close> reads that local
  variable, not the function imported from \<open>utils\<close>. Before the inner loop has run the
  variable is unbound and the read raises \<open>UnboundLocalError\<close>; once it holds a DataFrame
  the call raises \<open>TypeError\<close> (a DataFrame is not callable). The state of the loops is
  the list \<open>chunks\<close> and that local variable.
\<close>

definition call_local_chunk_df :: "'v table option \<Rightarrow> 'v table \<Rightarrow> int \<Rightarrow> cause + 'v table list" where
  "call_local_chunk_df local_chunk_df df chunk_size =
     (case local_chunk_df of
        None \<Rightarrow> Inl (UnboundLocalError ''chunk_df'')
      | Some _ \<Rightarrow> Inl (NotCallable ''DataFrame''))"

definition chunk_header :: "string \<Rightarrow> nat \<Rightarrow> nat \<Rightarrow> string" where
  "chunk_header sheet_name i n_chunks =
     newline @ ''=== SHEET: '' @ sheet_name @ '' - CHUNK '' @ str_nat (i + 1) @ ''/''
       @ str_nat n_chunks @ '' ==='' @ newline"

fun chunk_loop ::
  "'v pandas \<Rightarrow> string \<Rightarrow> string \<Rightarrow> string \<Rightarrow> nat \<Rightarrow> (nat \<times> 'v table) list
     \<Rightarrow> string list \<times> 'v table option \<Rightarrow> cause + (string list \<times> 'v table option)" where
  "chunk_loop lib output_format prompt_template sheet_name n_chunks [] st = Inr st"
| "chunk_loop lib output_format prompt_template sheet_name n_chunks ((i, chunk) # rest) (chunks, local_chunk_df) =
     (case format_dispatch lib output_format chunk of
        Inl e \<Rightarrow> Inl e
      | Inr formatted_chunk \<Rightarrow>
          chunk_loop lib output_format prompt_template sheet_name n_chunks rest
            (chunks @ [format_prompt (chunk_header sheet_name i n_chunks @ formatted_chunk) prompt_template],
             Some chunk))"

fun sheets_loop ::
  "'v pandas \<Rightarrow> string \<Rightarrow> int \<Rightarrow> string \<Rightarrow> (string \<times> 'v table) list
     \<Rightarrow> string list \<times> 'v table option \<Rightarrow> cause + (string list \<times> 'v table option)" where
  "sheets_loop lib output_format chunk_size prompt_template [] st = Inr st"
| "sheets_loop lib output_format chunk_size prompt_template ((sheet_name, df) # rest) (chunks, local_chunk_df) =
     (if empty_df df
      then sheets_loop lib output_format chunk_size prompt_template rest (chunks, local_chunk_df)
      else case call_local_chunk_df local_chunk_df (fillna df) chunk_size of
             Inl e \<Rightarrow> Inl e
           | Inr df_chunks \<Rightarrow>
               (case chunk_loop lib output_format prompt_template sheet_name (length df_chunks)
                       (enumerate 0 df_chunks) (chunks, local_chunk_df) of
                  Inl e \<Rightarrow> Inl e
                | Inr st \<Rightarrow> sheets_loop lib output_format chunk_size prompt_template rest st))"

text \<open>
  The body of \<open>excel_to_chunked_text\<close> behind the loading, from \<open>if not all_sheets\<close> to
  \<open>return chunks\<close>:
  \<^verbatim>\<open>
  if include_summary and chunks:
      first_df = next((df for df in all_sheets.values() if not df.empty), None)
      if first_df is not None:
          summary = get_data_summary(first_df)
          summary_text = format_summary(summary)
          summary_chunk = format_prompt(summary_text, prompt_template)
          chunks.insert(0, summary_chunk)
  return chunks
  \<close>
\<close>

definition chunked_text_of ::
  "'v pandas \<Rightarrow> (string \<times> 'v table) list \<Rightarrow> string \<Rightarrow> int \<Rightarrow> string \<Rightarrow> bool \<Rightarrow> cause + string list" where
  "chunked_text_of lib all_sheets output_format chunk_size prompt_template include_summary =
     (if all_sheets = [] then Inl NoSheetsRead
      else case sheets_loop lib output_format chunk_size prompt_template all_sheets ([], None) of
             Inl e \<Rightarrow> Inl e
           | Inr (chunks, _) \<Rightarrow>
               if include_summary \<and> chunks \<noteq> []
               then (case first_nonempty all_sheets of
                       None \<Rightarrow> Inr chunks
                     | Some first_df \<Rightarrow>
                         Inr (format_prompt (format_summary lib (get_data_summary lib first_df)) prompt_template
                              # chunks))
               else Inr chunks)"

definition excel_to_chunked_text ::
  "'v pandas \<Rightarrow> 'v source \<Rightarrow> selector \<Rightarrow> string \<Rightarrow> int \<Rightarrow> string \<Rightarrow> bool
     \<Rightarrow> string list \<times> (exn + string list)" where
  "excel_to_chunked_text lib file_path sheet_names output_format chunk_size prompt_template include_summary =
     (case load_sheets file_path sheet_names of
        Inl e \<Rightarrow> ([], Inl (ErrorConvertingChunks e))
      | Inr (all_sheets, printed) \<Rightarrow>
          (printed,
           case chunked_text_of lib all_sheets output_format chunk_size prompt_template include_summary of
             Inl e \<Rightarrow> Inl (ErrorConvertingChunks e)
           | Inr chunks \<Rightarrow> Inr chunks))"

section \<open>Concrete inputs\<close>

text \<open>The table of the repository's tests (\<open>tests/test_converter.py\<close>, \<open>setUp\<close>).\<close>

definition sample_df :: "int table" where
  "sample_df =
     \<lparr> col_names = [''Name'', ''Age'', ''City'', ''Salary''],
       rows = [[Text ''Alice'', Val 25, Text ''New York'', Val 50000],
               [Text ''Bob'', Val 30, Text ''Los Angeles'', Val 60000],
               [Text ''Charlie'', Val 35, Text ''Chicago'', Val 70000],
               [Text ''Diana'', Val 28, Text ''Boston'', Val 55000]] \<rparr>"

text \<open>\<open>pd.DataFrame()\<close>, the empty table of \<open>test_chunk_df_edge_cases\<close>.\<close>

definition empty_table :: "int table" where
  "empty_table = \<lparr> col_names = [], rows = [] \<rparr>"

text \<open>A sheet with blank cells: two of the three cells of column \<open>B\<close> are blank.\<close>

definition gappy_df :: "int table" where
  "gappy_df =
     \<lparr> col_names = [''A'', ''B''],
       rows = [[Val 1, NaN], [Val 2, Text ''x''], [Val 3, NaN]] \<rparr>"

text \<open>
  The reading of a workbook file, as pandas documents it for the arguments the code
  passes. A sheet of the file is given as a table in which \<open>NaN\<close> marks a blank cell.
  With \<open>na_filter=True\<close> (the default of pandas) a blank cell is read as NaN; with
  \<open>na_filter=False\<close>, which both operations pass, no missing value is detected and a blank
  cell is read as the empty text.
\<close>

definition read_cell :: "bool \<Rightarrow> 'v cell \<Rightarrow> 'v cell" where
  "read_cell na_filter c =
     (case c of NaN \<Rightarrow> (if na_filter then NaN else Text '''') | _ \<Rightarrow> c)"

definition read_table :: "bool \<Rightarrow> 'v table \<Rightarrow> 'v table" where
  "read_table na_filter sheet = sheet\<lparr>rows := map (map (read_cell na_filter)) (rows sheet)\<rparr>"

text \<open>
  The source that is a workbook file with the given sheets, read as the code reads it
  (\<open>na_filter=False\<close>): every sheet is readable, and asking for a name that the workbook
  does not have fails.
\<close>

definition workbook :: "(string \<times> 'v table) list \<Rightarrow> 'v source" where
  "workbook sheets =
     \<lparr> read_all = Inr (map (\<lambda>(name, sheet). (name, read_table False sheet)) sheets),
       read_sheet = (\<lambda>name. case map_of sheets name of
                               None \<Rightarrow> Inl (''Worksheet named '' @ [CHR 0x27] @ name @ [CHR 0x27] @ '' not found'')
                             | Some sheet \<Rightarrow> Inr (read_table False sheet)) \<rparr>"

text \<open>
  A stand-in for the library at concrete inputs: each rendering is the name of the
  format, the number of rows and the column names; the statistics are empty; of the
  characters outside ASCII the lowercasing knows the Kelvin sign, which it turns into
  \<open>k\<close> as Python does, and it lowers the ASCII letters.
\<close>

definition kelvin_sign :: string where
  "kelvin_sign = [CHR 0xE2, CHR 0x84, CHR 0xAA]"

definition plain_render :: "string \<Rightarrow> 'v table \<Rightarrow> string" where
  "plain_render tag df = tag @ '':'' @ str_nat (len df) @ '':'' @ join '','' (col_names df)"

definition plain_lib :: "int pandas" where
  "plain_lib =
     \<lparr> to_csv = plain_render ''csv'',
       to_json = plain_render ''json'',
       to_markdown = plain_render ''markdown'',
       dtypes = (\<lambda>df. map (\<lambda>c. (c, ''object'')) (col_names df)),
       memory_usage = (\<lambda>df. 0),
       kb_2f = (\<lambda>b. ''0.00''),
       numeric_cols = (\<lambda>df. []),
       describe = (\<lambda>df. []),
       unicode_lower = (\<lambda>s. map lower_char (py_replace s kelvin_sign ''k'')) \<rparr>"

section \<open>Notions of the statements\<close>

text \<open>The formats the dispatch accepts: those whose lowercasing is one of the three names.\<close>

definition supported :: "'v pandas \<Rightarrow> string \<Rightarrow> bool" where
  "supported lib output_format =
     (lower lib output_format = ''csv'' \<or> lower lib output_format = ''json''
      \<or> lower lib output_format = ''markdown'')"


text \<open>The sheets of a SheetSet that have rows.\<close>

definition with_rows :: "(string \<times> 'v table) list \<Rightarrow> (string \<times> 'v table) list" where
  "with_rows all_sheets = filter (\<lambda>(name, df). 0 < len df) all_sheets"

section \<open>Verification: the chunker\<close>

subsection \<open>The indices of the loop\<close>

lemma ceil_less_iff:
  assumes "0 < m"
  shows "(j < (n + m - 1) div m) = (j * m < (n::nat))"
proof -
  have "(j < (n + m - 1) div m) = (Suc j \<le> (n + m - 1) div m)" by auto
  also have "\<dots> = (Suc j * m \<le> n + m - 1)"
    using assms by (simp only: less_eq_div_iff_mult_less_eq)
  also have "\<dots> = (j * m < n)" using assms by auto
  finally show ?thesis .
qed

lemma ceil_real:
  assumes "0 < m"
  shows "int ((n + m - 1) div m) = \<lceil>real n / real m\<rceil>"
proof -
  let ?c = "(n + m - 1) div m"
  have up: "n \<le> ?c * m"
    using ceil_less_iff[OF assms, of ?c n] by auto
  have lo: "?c = 0 \<or> (?c - 1) * m < n"
    using ceil_less_iff[OF assms, of "?c - 1" n] by auto
  have "real n \<le> real (?c * m)" using up by (simp only: of_nat_le_iff)
  then have a: "real n / real m \<le> real ?c" using assms
    by (simp add: pos_divide_le_eq)
  have b: "real ?c - 1 < real n / real m"
  proof (cases "?c = 0")
    case True
    have "0 \<le> real n / real m" by simp
    then show ?thesis using True by linarith
  next
    case False
    then have "(?c - 1) * m < n" using lo by simp
    then have "real ((?c - 1) * m) < real n" by (simp only: of_nat_less_iff)
    moreover have "real (?c - 1) = real ?c - 1" using False by (simp add: of_nat_diff)
    ultimately have "(real ?c - 1) * real m < real n" by simp
    then show ?thesis using assms by (simp add: pos_less_divide_eq)
  qed
  show ?thesis using a b by (intro ceiling_unique[symmetric]) auto
qed

lemma py_range_pos:
  "0 < m \<Longrightarrow> py_range i n m = (if i < n then i # py_range (i + m) n m else [])"
  by (subst py_range.simps) simp

lemma py_range_neg: "m < 0 \<Longrightarrow> 0 \<le> n \<Longrightarrow> py_range 0 n m = []"
  by (subst py_range.simps) simp

lemma py_range_closed:
  assumes "0 < m"
  shows "j \<le> (n + m - 1) div m \<Longrightarrow>
    py_range (int j * int m) (int n) (int m) = map (\<lambda>k. int k * int m) [j ..< (n + m - 1) div m]"
proof (induction "(n + m - 1) div m - j" arbitrary: j)
  case 0
  then have "j = (n + m - 1) div m" by simp
  then have "\<not> j * m < n" using ceil_less_iff[OF assms, of j n] by simp
  then have "\<not> int j * int m < int n"
    by (metis of_nat_less_iff of_nat_mult)
  then show ?case using assms 0 by (subst py_range_pos) auto
next
  case (Suc d)
  then have lt: "j < (n + m - 1) div m" by simp
  then have "j * m < n" using ceil_less_iff[OF assms, of j n] by simp
  then have a: "int j * int m < int n" by (metis of_nat_less_iff of_nat_mult)
  have b: "int j * int m + int m = int (Suc j) * int m" by (simp add: algebra_simps)
  have "py_range (int (Suc j) * int m) (int n) (int m) =
      map (\<lambda>k. int k * int m) [Suc j ..< (n + m - 1) div m]"
    using Suc lt by (intro Suc.hyps(1)) auto
  then show ?case
    using assms a lt b by (subst py_range_pos) (auto simp: upt_conv_Cons simp del: of_nat_Suc)
qed

lemma py_range_from_zero:
  assumes "0 < m"
  shows "py_range 0 (int n) (int m) = map (\<lambda>k. int k * int m) [0 ..< (n + m - 1) div m]"
  using py_range_closed[OF assms, of 0 n] by simp

subsection \<open>The slices\<close>

lemma slice_bound_of_nat: "slice_bound n (int i) = min i n"
  by (simp add: slice_bound_def)

lemma py_slice_of_nat:
  "py_slice xs (int i) (int j) =
     take (min j (length xs) - min i (length xs)) (drop (min i (length xs)) xs)"
  by (simp only: py_slice_def Let_def slice_bound_of_nat)

lemma py_slice_chunk:
  assumes "k * m < length xs"
  shows "py_slice xs (int k * int m) (int k * int m + int m) = take m (drop (k * m) xs)"
proof -
  have "py_slice xs (int (k * m)) (int (k * m + m)) = take m (drop (k * m) xs)"
    unfolding py_slice_of_nat using assms by (simp add: min_def)
  then show ?thesis by (simp only: of_nat_mult of_nat_add)
qed

lemma concat_chunks_take:
  "concat (map (\<lambda>k. take m (drop (k * m) xs)) [0 ..< j]) = take (j * m) xs"
proof (induction j)
  case 0
  show ?case by simp
next
  case (Suc j)
  have "take (Suc j * m) xs = take (j * m) xs @ take m (drop (j * m) xs)"
    using take_add[of "j * m" m xs] by (simp add: add.commute)
  with Suc show ?case by simp
qed

subsection \<open>The chunks\<close>

lemma chunk_df_large:
  assumes "0 < m" and "m < len df"
  shows "chunk_df df (int m) =
     Inr (map (\<lambda>k. df\<lparr>rows := take m (drop (k * m) (rows df))\<rparr>) [0 ..< (len df + m - 1) div m])"
proof -
  have "\<And>k. k < (len df + m - 1) div m \<Longrightarrow>
      iloc df (int k * int m) (int k * int m + int m) = df\<lparr>rows := take m (drop (k * m) (rows df))\<rparr>"
    using ceil_less_iff[OF assms(1), of _ "len df"]
    by (simp add: iloc_def py_slice_chunk len_def)
  then show ?thesis
    using assms by (simp add: chunk_df_def py_range_from_zero)
qed

lemma chunk_count_small: "0 < n \<Longrightarrow> n \<le> m \<Longrightarrow> (n + m - 1) div m = (1::nat)"
  by (simp add: div_nat_eqI)

lemma chunk_df_positive:
  assumes "0 < m"
  shows "\<exists>chunks. chunk_df df (int m) = Inr chunks
     \<and> concat (map rows chunks) = rows df
     \<and> (\<forall>c \<in> set chunks. col_names c = col_names df)
     \<and> (\<forall>k. Suc k < length chunks \<longrightarrow> len (chunks ! k) = m)
     \<and> (0 < len df \<longrightarrow> 1 \<le> len (last chunks) \<and> len (last chunks) \<le> m)
     \<and> (len df = 0 \<longrightarrow> chunks = [df])
     \<and> length chunks = (if len df = 0 then 1 else (len df + m - 1) div m)"
proof (cases "len df \<le> m")
  case True
  then have "chunk_df df (int m) = Inr [df]" by (simp add: chunk_df_def)
  then show ?thesis using True assms chunk_count_small[of "len df" m] by auto
next
  case False
  define n where "n = len df"
  define c where "c = (n + m - 1) div m"
  define chunks where "chunks = map (\<lambda>k. df\<lparr>rows := take m (drop (k * m) (rows df))\<rparr>) [0 ..< c]"
  have n: "m < n" "length (rows df) = n" using False by (simp_all add: n_def len_def)
  have eq: "chunk_df df (int m) = Inr chunks"
    using chunk_df_large[OF assms, of df] n unfolding chunks_def c_def n_def by simp
  have lt_iff: "\<And>j. (j < c) = (j * m < n)"
    unfolding c_def by (rule ceil_less_iff[OF assms])
  have c_pos: "0 < c" using lt_iff[of 0] n by simp
  have cover: "n \<le> c * m" using lt_iff[of c] by simp
  have len_chunks: "length chunks = c" by (simp add: chunks_def)
  have "map rows chunks = map (\<lambda>k. take m (drop (k * m) (rows df))) [0 ..< c]"
    by (simp add: chunks_def)
  then have cat: "concat (map rows chunks) = rows df"
    using cover n by (simp add: concat_chunks_take)
  have cols: "\<forall>c \<in> set chunks. col_names c = col_names df"
    by (auto simp: chunks_def)
  have nth: "\<And>k. k < c \<Longrightarrow> len (chunks ! k) = min m (n - k * m)"
    using n by (simp add: chunks_def len_def min.commute)
  have full: "\<forall>k. Suc k < length chunks \<longrightarrow> len (chunks ! k) = m"
  proof (intro allI impI)
    fix k assume "Suc k < length chunks"
    then have k: "Suc k < c" by (simp add: len_chunks)
    then have "Suc k * m < n" using lt_iff by simp
    then have "m \<le> n - k * m" by simp
    then show "len (chunks ! k) = m" using nth[of k] k by simp
  qed
  have "chunks \<noteq> []" using c_pos len_chunks by auto
  then have "last chunks = chunks ! (c - 1)"
    using len_chunks by (simp add: last_conv_nth)
  then have "len (last chunks) = min m (n - (c - 1) * m)"
    using nth[of "c - 1"] c_pos by simp
  moreover have "(c - 1) * m < n" using lt_iff[of "c - 1"] c_pos by simp
  ultimately have lst: "1 \<le> len (last chunks) \<and> len (last chunks) \<le> m"
    using assms by simp
  show ?thesis
    using eq cat cols full lst len_chunks n unfolding c_def n_def by auto
qed

text \<open>
  Claim C1, as the code has it. For every table and every \<open>chunk_size > 0\<close>, \<open>chunk_df\<close>
  returns chunks whose rows, concatenated in order, are the rows of the table; every chunk
  has the columns of the table; every chunk but the last has exactly \<open>chunk_size\<close> rows;
  when the table has rows, the last chunk has between 1 and \<open>chunk_size\<close> rows; when the
  table has no rows, the only chunk is the table itself (with no rows); and the number of
  chunks is the ceiling of the row count over \<open>chunk_size\<close>, or 1 for a table without rows.
\<close>

theorem chunk_df_partitions_rows:
  assumes "0 < chunk_size"
  shows "\<exists>chunks. chunk_df df chunk_size = Inr chunks
     \<and> concat (map rows chunks) = rows df
     \<and> (\<forall>c \<in> set chunks. col_names c = col_names df)
     \<and> (\<forall>k. Suc k < length chunks \<longrightarrow> int (len (chunks ! k)) = chunk_size)
     \<and> (0 < len df \<longrightarrow> 1 \<le> len (last chunks) \<and> int (len (last chunks)) \<le> chunk_size)
     \<and> (len df = 0 \<longrightarrow> chunks = [df])
     \<and> int (length chunks) =
         (if len df = 0 then 1 else \<lceil>real (len df) / real_of_int chunk_size\<rceil>)"
proof -
  define m where "m = nat chunk_size"
  have m: "0 < m" "chunk_size = int m" using assms by (simp_all add: m_def)
  from chunk_df_positive[OF m(1), of df]
  obtain chunks where c: "chunk_df df (int m) = Inr chunks
     \<and> concat (map rows chunks) = rows df
     \<and> (\<forall>c \<in> set chunks. col_names c = col_names df)
     \<and> (\<forall>k. Suc k < length chunks \<longrightarrow> len (chunks ! k) = m)
     \<and> (0 < len df \<longrightarrow> 1 \<le> len (last chunks) \<and> len (last chunks) \<le> m)
     \<and> (len df = 0 \<longrightarrow> chunks = [df])
     \<and> length chunks = (if len df = 0 then 1 else (len df + m - 1) div m)" ..
  then have "int (length chunks) = (if len df = 0 then 1 else \<lceil>real (len df) / real m\<rceil>)"
    using ceil_real[OF m(1), of "len df"] by simp
  then show ?thesis using c m(2) by auto
qed

theorem chunk_df_partitions_rows_witness:
  "(0::int) < 3 \<and> 0 < len sample_df
   \<and> (\<exists>chunks. chunk_df sample_df 3 = Inr chunks
        \<and> concat (map rows chunks) = rows sample_df
        \<and> length chunks = 2
        \<and> len (chunks ! 0) = 3
        \<and> len (last chunks) = 1
        \<and> int (length chunks) = \<lceil>real (len sample_df) / real_of_int 3\<rceil>)"
proof -
  have h: "(0::int) < 3" by simp
  have n: "len sample_df = 4" by (simp add: len_def sample_df_def)
  have e: "chunk_df sample_df 3 =
     Inr [sample_df\<lparr>rows := take 3 (rows sample_df)\<rparr>, sample_df\<lparr>rows := drop 3 (rows sample_df)\<rparr>]"
    by (simp add: chunk_df_def len_def py_range.simps iloc_def py_slice_def slice_bound_def sample_df_def)
  from chunk_df_partitions_rows[OF h, of sample_df] n e show ?thesis
    by (auto simp: len_def sample_df_def)
qed

text \<open>
  The claim as written asks for a last chunk of at least one row for every table. The
  table without rows gives one chunk, and that chunk has no rows.
\<close>

theorem chunk_df_empty_table_counterexample:
  "chunk_df empty_table 1 = Inr [empty_table] \<and> \<not> 1 \<le> len (last [empty_table])"
  by (simp add: chunk_df_def len_def empty_table_def)

text \<open>
  Claim C2, as the code has it. \<open>chunk_df\<close> never checks its \<open>chunk_size\<close>. For a
  negative \<open>chunk_size\<close> it returns the empty list of chunks for every table; for
  \<open>chunk_size = 0\<close> it returns the table as its only chunk when the table has no rows, and
  otherwise fails with the \<open>ValueError\<close> that \<open>range\<close> raises for a zero step.
\<close>

theorem chunk_df_nonpositive:
  assumes "chunk_size \<le> 0"
  shows "chunk_df df chunk_size =
     (if chunk_size < 0 then Inr []
      else if len df = 0 then Inr [df]
      else Inl RangeStepZero)"
proof (cases "chunk_size < 0")
  case True
  then show ?thesis by (simp add: chunk_df_def py_range_neg)
next
  case False
  with assms have "chunk_size = 0" by simp
  then show ?thesis by (simp add: chunk_df_def)
qed

theorem chunk_df_nonpositive_witness:
  "(- 1::int) \<le> 0 \<and> chunk_df sample_df (- 1) = Inr []"
proof -
  have h: "(- 1::int) \<le> 0" by simp
  from chunk_df_nonpositive[OF h, of sample_df] show ?thesis by simp
qed

text \<open>
  The claim as written asks for a failure whenever \<open>chunk_size \<le> 0\<close>. The table of the
  tests with \<open>chunk_size = -2\<close>, and the table without rows with \<open>chunk_size = 0\<close>, both
  return a list of chunks.
\<close>

theorem chunk_df_nonpositive_counterexample:
  "chunk_df sample_df (- 2) = Inr [] \<and> chunk_df empty_table 0 = Inr [empty_table]"
  by (simp add: chunk_df_def len_def sample_df_def empty_table_def py_range_neg)

section \<open>Verification: the template\<close>

lemma replace_scan_absent:
  "\<not> sublist old s \<Longrightarrow> replace_scan old new s = s"
proof (induction s)
  case Nil
  show ?case by simp
next
  case (Cons c cs)
  then have "\<not> prefix old (c # cs)" and "\<not> sublist old cs"
    by (simp_all add: sublist_Cons_right)
  with Cons.IH show ?case by simp
qed

text \<open>
  A token whose first character does not come back inside it cannot begin in the text
  before an occurrence and end inside that occurrence.
\<close>

lemma no_straddle:
  assumes old: "old = h # t" and h: "h \<notin> set t"
    and pre: "pre \<noteq> []" and free: "\<not> sublist old pre"
  shows "\<not> prefix old (pre @ old @ rest)"
proof
  assume "prefix old (pre @ old @ rest)"
  then have "prefix old pre \<or> (\<exists>us. old = pre @ us \<and> prefix us (old @ rest))"
    by (simp only: prefix_append)
  then consider "prefix old pre" | us where "old = pre @ us" "prefix us (old @ rest)"
    by blast
  then show False
  proof cases
    case 1
    then have "sublist old pre" by (rule prefix_imp_sublist)
    with free show False by simp
  next
    case 2
    obtain p where p: "pre = h # p" "t = p @ us"
      using pre 2(1) old by (cases pre) auto
    show False
    proof (cases us)
      case Nil
      with 2(1) have "old = pre" by simp
      with free show False by simp
    next
      case (Cons u us')
      with 2(2) old have "u = h" by simp
      with Cons p(2) h show False by simp
    qed
  qed
qed

lemma replace_scan_first:
  assumes old: "old = h # t" and h: "h \<notin> set t"
  shows "\<not> sublist old pre \<Longrightarrow>
    replace_scan old new (pre @ old @ rest) = pre @ new @ replace_scan old new rest"
proof (induction pre)
  case Nil
  show ?case using old by simp
next
  case (Cons c p)
  have np: "\<not> prefix old ((c # p) @ old @ rest)"
    using no_straddle[OF old h _ Cons.prems] by simp
  have "\<not> sublist old p" using Cons.prems by (simp add: sublist_Cons_right)
  with Cons.IH np show ?case by simp
qed

lemma placeholder_head: "placeholder = CHR ''['' # ''formatted_data]''"
  by (simp add: placeholder_def)

lemma format_prompt_absent:
  "\<not> sublist placeholder template \<Longrightarrow> format_prompt data template = template"
  by (simp add: format_prompt_def py_replace_def replace_scan_absent placeholder_head)

lemma format_prompt_first:
  assumes "\<not> sublist placeholder pre"
  shows "format_prompt data (pre @ placeholder @ rest) = pre @ data @ format_prompt data rest"
proof -
  have "CHR ''['' \<notin> set ''formatted_data]''" by simp
  from replace_scan_first[OF placeholder_head this assms, of data rest]
  show ?thesis by (simp add: format_prompt_def py_replace_def placeholder_head)
qed

lemma format_prompt_join:
  "(\<forall>p \<in> set pieces. \<not> sublist placeholder p) \<Longrightarrow>
     format_prompt data (join placeholder pieces) = join data pieces"
proof (induction placeholder pieces rule: join.induct)
  case 1
  show ?case by (simp add: format_prompt_def py_replace_def placeholder_head)
next
  case (2 x)
  then show ?case by (simp add: format_prompt_absent)
next
  case (3 x y ys)
  then show ?case by (simp add: format_prompt_first)
qed

lemma no_placeholder_examples:
  "\<not> sublist placeholder ''No placeholder''"
  "\<not> sublist placeholder ''Test: ''"
  "\<not> sublist placeholder ''a''"
  "\<not> sublist placeholder ''b''"
  by (simp_all add: placeholder_def sublist_Cons_right)

text \<open>
  Claim C4. Rendering a template replaces every occurrence of the token
  \<open>[formatted_data]\<close> by the data and keeps the rest: up to the first occurrence the
  template is kept, the occurrence becomes the data, and the rest of the template is
  rendered in the same way; a template without the token is returned as it is, the data
  is dropped. The three templates of the claim give the three results of the claim.
\<close>

theorem format_prompt_replaces_every_occurrence:
  "(\<not> sublist placeholder pre \<longrightarrow>
      format_prompt data (pre @ placeholder @ rest) = pre @ data @ format_prompt data rest)
   \<and> (\<not> sublist placeholder template \<longrightarrow> format_prompt data template = template)
   \<and> format_prompt ''X'' ''Analyze this data: [formatted_data]'' = ''Analyze this data: X''
   \<and> format_prompt ''X'' ''[formatted_data] and [formatted_data]'' = ''X and X''"
proof (intro conjI impI)
  show "format_prompt ''X'' ''Analyze this data: [formatted_data]'' = ''Analyze this data: X''"
    by (simp add: format_prompt_def py_replace_def placeholder_def)
  show "format_prompt ''X'' ''[formatted_data] and [formatted_data]'' = ''X and X''"
    by (simp add: format_prompt_def py_replace_def placeholder_def)
qed (simp_all add: format_prompt_absent format_prompt_first)

theorem format_prompt_replaces_every_occurrence_witness:
  "\<not> sublist placeholder ''Test: ''
   \<and> format_prompt ''data'' (''Test: '' @ placeholder @ ''No placeholder'') = ''Test: dataNo placeholder''
   \<and> \<not> sublist placeholder ''No placeholder''
   \<and> format_prompt ''data'' ''No placeholder'' = ''No placeholder''"
  using format_prompt_replaces_every_occurrence
          [where pre = "''Test: ''" and data = "''data''" and rest = "''No placeholder''"
             and template = "''No placeholder''"]
        no_placeholder_examples
  by simp

text \<open>
  Claim C9. Rendering is one pass from the left that never reads the text it has put in.
  A template made of pieces without the token, with the token between them, is rendered
  as the same pieces with the data between them, whatever the data is: each occurrence
  is replaced once, and a token inside the data stays in the output as it is.
\<close>

theorem format_prompt_single_pass:
  "((\<forall>p \<in> set pieces. \<not> sublist placeholder p) \<longrightarrow>
      format_prompt data (join placeholder pieces) = join data pieces)
   \<and> format_prompt data placeholder = data
   \<and> format_prompt ''<[formatted_data]>'' ''a[formatted_data]b[formatted_data]''
       = ''a<[formatted_data]>b<[formatted_data]>''"
proof (intro conjI impI)
  show "format_prompt data placeholder = data"
  proof -
    have "placeholder \<noteq> []" by (simp add: placeholder_def)
    with format_prompt_join[of "[[], []]" data] show ?thesis by simp
  qed
  show "format_prompt ''<[formatted_data]>'' ''a[formatted_data]b[formatted_data]''
       = ''a<[formatted_data]>b<[formatted_data]>''"
    by (simp add: format_prompt_def py_replace_def placeholder_def)
qed (simp add: format_prompt_join)

theorem format_prompt_single_pass_witness:
  "\<not> sublist placeholder ''a'' \<and> \<not> sublist placeholder ''b''
   \<and> format_prompt (''see '' @ placeholder) (join placeholder [''a'', ''b''])
       = ''a'' @ ''see '' @ placeholder @ ''b''"
  using format_prompt_single_pass[where pieces = "[''a'', ''b'']" and data = "''see '' @ placeholder"]
        no_placeholder_examples
  by simp

section \<open>Verification: the two operations\<close>

lemma lower_names:
  "lower lib ''csv'' = ''csv''" "lower lib ''json'' = ''json''" "lower lib ''markdown'' = ''markdown''"
  by (simp_all add: lower_def is_ascii_def lower_char_def)

lemma read_table_concrete:
  "read_table False sample_df = sample_df"
  "read_table False empty_table = empty_table"
  by (simp_all add: read_table_def read_cell_def sample_df_def empty_table_def)


lemma format_dispatch_lower:
  "supported lib output_format \<Longrightarrow>
     format_dispatch lib (lower lib output_format) df = format_dispatch lib output_format df"
  by (auto simp: supported_def format_dispatch_def lower_names)

lemma format_dispatch_unsupported:
  "\<not> supported lib output_format \<Longrightarrow>
     format_dispatch lib output_format df = Inl (UnsupportedFormat output_format)"
  by (simp add: supported_def format_dispatch_def)


lemma format_dispatch_Inl:
  "format_dispatch lib output_format df = Inl e \<Longrightarrow>
     e = UnsupportedFormat output_format \<and> \<not> supported lib output_format"
  by (auto simp: supported_def format_dispatch_def split: if_splits)

lemma format_sheets_lower:
  "supported lib output_format \<Longrightarrow>
     format_sheets lib (lower lib output_format) all_sheets acc = format_sheets lib output_format all_sheets acc"
  by (induction lib output_format all_sheets acc rule: format_sheets.induct)
     (auto simp: format_dispatch_lower split: sum.splits)

lemma format_sheets_Inl:
  "format_sheets lib output_format all_sheets acc = Inl e \<Longrightarrow>
     e = UnsupportedFormat output_format \<and> \<not> supported lib output_format"
  by (induction lib output_format all_sheets acc rule: format_sheets.induct)
     (auto dest: format_dispatch_Inl split: if_splits sum.splits)

lemma format_sheets_supported:
  "supported lib output_format \<Longrightarrow> \<exists>out. format_sheets lib output_format all_sheets acc = Inr out"
  using format_sheets_Inl[of lib output_format all_sheets acc]
  by (cases "format_sheets lib output_format all_sheets acc") auto

lemma format_sheets_unsupported:
  "\<not> supported lib output_format \<Longrightarrow>
     format_sheets lib output_format all_sheets acc =
       (if list_all (\<lambda>(name, df). empty_df df) all_sheets then Inr acc
        else Inl (UnsupportedFormat output_format))"
  by (induction lib output_format all_sheets acc rule: format_sheets.induct)
     (auto simp: format_dispatch_unsupported)

lemma format_sheets_all_empty:
  "list_all (\<lambda>(name, df). empty_df df) all_sheets \<Longrightarrow>
     format_sheets lib output_format all_sheets acc = Inr acc"
  by (induction lib output_format all_sheets acc rule: format_sheets.induct) auto

lemma first_nonempty_all_empty:
  "list_all (\<lambda>(name, df). empty_df df) all_sheets \<Longrightarrow> first_nonempty all_sheets = None"
  by (induction all_sheets) (auto simp: first_nonempty_def)

lemma sheets_loop_closed:
  "sheets_loop lib output_format chunk_size prompt_template all_sheets (chunks, local_chunk_df) =
     (if list_all (\<lambda>(name, df). empty_df df) all_sheets then Inr (chunks, local_chunk_df)
      else Inl (case local_chunk_df of
                  None \<Rightarrow> UnboundLocalError ''chunk_df''
                | Some _ \<Rightarrow> NotCallable ''DataFrame''))"
  by (induction all_sheets)
     (auto simp: call_local_chunk_df_def split: option.splits)

lemma chunked_text_of_closed:
  "chunked_text_of lib all_sheets output_format chunk_size prompt_template include_summary =
     (if all_sheets = [] then Inl NoSheetsRead
      else if list_all (\<lambda>(name, df). empty_df df) all_sheets then Inr []
      else Inl (UnboundLocalError ''chunk_df''))"
  by (simp add: chunked_text_of_def sheets_loop_closed)

lemma formatted_text_of_all_empty:
  "all_sheets \<noteq> [] \<Longrightarrow> list_all (\<lambda>(name, df). empty_df df) all_sheets \<Longrightarrow>
     formatted_text_of lib all_sheets output_format prompt_template include_summary =
       Inr (format_prompt [] prompt_template)"
  by (simp add: formatted_text_of_def format_sheets_all_empty first_nonempty_all_empty)

lemma formatted_text_of_NoSheets:
  "(formatted_text_of lib all_sheets output_format prompt_template include_summary = Inl NoSheetsRead)
     = (all_sheets = [])"
  by (auto simp: formatted_text_of_def Let_def dest: format_sheets_Inl split: sum.splits)

lemma load_sheets_Inl:
  "load_sheets src sheet_names = Inl e \<Longrightarrow> \<exists>msg. e = ReadFailure msg"
  by (auto simp: load_sheets_def split: selector.splits sum.splits)

lemma with_rows_all_empty:
  "list_all (\<lambda>(name, df). empty_df df) (with_rows all_sheets) = list_all (\<lambda>(name, df). empty_df df) all_sheets"
  by (induction all_sheets) (auto simp: with_rows_def empty_df_def len_def)

lemma with_rows_Nil_all_empty:
  "with_rows all_sheets = [] \<Longrightarrow> list_all (\<lambda>(name, df). empty_df df) all_sheets"
  using with_rows_all_empty[of all_sheets] by simp

lemma format_sheets_with_rows:
  "format_sheets lib output_format (with_rows all_sheets) acc = format_sheets lib output_format all_sheets acc"
proof (induction lib output_format all_sheets acc rule: format_sheets.induct)
  case (1 lib output_format acc)
  show ?case by (simp add: with_rows_def)
next
  case (2 lib output_format sheet_name df rest acc)
  show ?case
  proof (cases "0 < len df")
    case True
    then have "with_rows ((sheet_name, df) # rest) = (sheet_name, df) # with_rows rest"
      by (simp add: with_rows_def)
    then show ?thesis using 2 by (auto split: sum.splits)
  next
    case False
    then have "with_rows ((sheet_name, df) # rest) = with_rows rest" "empty_df df"
      by (simp_all add: with_rows_def empty_df_def len_def)
    then show ?thesis using 2 by simp
  qed
qed

lemma first_nonempty_with_rows:
  "first_nonempty (with_rows all_sheets) = first_nonempty all_sheets"
  by (induction all_sheets) (auto simp: first_nonempty_def with_rows_def empty_df_def len_def)

lemma with_rows_nonempty: "with_rows all_sheets \<noteq> [] \<Longrightarrow> all_sheets \<noteq> []"
  by (auto simp: with_rows_def)

lemma formatted_text_of_with_rows:
  "with_rows all_sheets \<noteq> [] \<Longrightarrow>
     formatted_text_of lib (with_rows all_sheets) output_format prompt_template include_summary =
     formatted_text_of lib all_sheets output_format prompt_template include_summary"
  unfolding formatted_text_of_def format_sheets_with_rows first_nonempty_with_rows
  by (simp add: with_rows_nonempty)

lemma chunked_text_of_with_rows:
  "with_rows all_sheets \<noteq> [] \<Longrightarrow>
     chunked_text_of lib (with_rows all_sheets) output_format chunk_size prompt_template include_summary =
     chunked_text_of lib all_sheets output_format chunk_size prompt_template include_summary"
  by (simp add: chunked_text_of_closed with_rows_all_empty with_rows_nonempty)

lemma formatted_result_NoSheets:
  "(snd (excel_to_formatted_text lib src sel output_format prompt_template include_summary)
      = Inl (ErrorConverting NoSheetsRead))
   = (\<exists>printed. load_sheets src sel = Inr ([], printed))"
proof (cases "load_sheets src sel")
  case (Inl e)
  then show ?thesis
    using load_sheets_Inl[OF Inl] by (auto simp: excel_to_formatted_text_def)
next
  case (Inr r)
  obtain all_sheets printed where "r = (all_sheets, printed)" by (cases r)
  with Inr show ?thesis
    using formatted_text_of_NoSheets[of lib all_sheets output_format prompt_template include_summary]
    by (auto simp: excel_to_formatted_text_def split: sum.splits)
qed

lemma chunked_result_NoSheets:
  "(snd (excel_to_chunked_text lib src sel output_format chunk_size prompt_template include_summary)
      = Inl (ErrorConvertingChunks NoSheetsRead))
   = (\<exists>printed. load_sheets src sel = Inr ([], printed))"
proof (cases "load_sheets src sel")
  case (Inl e)
  then show ?thesis
    using load_sheets_Inl[OF Inl] by (auto simp: excel_to_chunked_text_def)
next
  case (Inr r)
  obtain all_sheets printed where "r = (all_sheets, printed)" by (cases r)
  with Inr show ?thesis
    by (auto simp: excel_to_chunked_text_def chunked_text_of_closed split: sum.splits)
qed

text \<open>
  Claim C6. Each of the two operations fails with the error for no sheets exactly when
  loading returned an empty SheetSet. A sheet without rows is skipped: a call whose
  SheetSet is the same without the sheets that have no rows returns the same result, so
  nothing of such a sheet reaches the output; and a SheetSet that holds only sheets
  without rows does not fail, it gives the template rendered with the empty text,
  respectively the empty list of chunks.
\<close>

theorem no_sheets_loaded_iff_sheet_set_empty:
  "(snd (excel_to_formatted_text lib src sel output_format prompt_template include_summary)
      = Inl (ErrorConverting NoSheetsRead))
     = (\<exists>printed. load_sheets src sel = Inr ([], printed))
   \<and> (snd (excel_to_chunked_text lib src sel output_format chunk_size prompt_template include_summary)
      = Inl (ErrorConvertingChunks NoSheetsRead))
     = (\<exists>printed. load_sheets src sel = Inr ([], printed))
   \<and> (load_sheets src sel = Inr (all_sheets, printed) \<and> with_rows all_sheets \<noteq> []
        \<and> load_sheets src' sel' = Inr (with_rows all_sheets, printed') \<longrightarrow>
          snd (excel_to_formatted_text lib src sel output_format prompt_template include_summary)
            = snd (excel_to_formatted_text lib src' sel' output_format prompt_template include_summary)
        \<and> snd (excel_to_chunked_text lib src sel output_format chunk_size prompt_template include_summary)
            = snd (excel_to_chunked_text lib src' sel' output_format chunk_size prompt_template include_summary))
   \<and> (load_sheets src sel = Inr (all_sheets, printed) \<and> all_sheets \<noteq> [] \<and> with_rows all_sheets = [] \<longrightarrow>
          excel_to_formatted_text lib src sel output_format prompt_template include_summary
            = (printed, Inr (format_prompt [] prompt_template))
        \<and> excel_to_chunked_text lib src sel output_format chunk_size prompt_template include_summary
            = (printed, Inr []))"
proof (intro conjI impI)
  show "(snd (excel_to_formatted_text lib src sel output_format prompt_template include_summary)
      = Inl (ErrorConverting NoSheetsRead))
     = (\<exists>printed. load_sheets src sel = Inr ([], printed))"
    by (rule formatted_result_NoSheets)
  show "(snd (excel_to_chunked_text lib src sel output_format chunk_size prompt_template include_summary)
      = Inl (ErrorConvertingChunks NoSheetsRead))
     = (\<exists>printed. load_sheets src sel = Inr ([], printed))"
    by (rule chunked_result_NoSheets)
next
  assume a: "load_sheets src sel = Inr (all_sheets, printed) \<and> with_rows all_sheets \<noteq> []
        \<and> load_sheets src' sel' = Inr (with_rows all_sheets, printed')"
  then show "snd (excel_to_formatted_text lib src sel output_format prompt_template include_summary)
            = snd (excel_to_formatted_text lib src' sel' output_format prompt_template include_summary)"
    by (simp add: excel_to_formatted_text_def formatted_text_of_with_rows)
  from a show "snd (excel_to_chunked_text lib src sel output_format chunk_size prompt_template include_summary)
            = snd (excel_to_chunked_text lib src' sel' output_format chunk_size prompt_template include_summary)"
    by (simp add: excel_to_chunked_text_def chunked_text_of_with_rows)
next
  assume a: "load_sheets src sel = Inr (all_sheets, printed) \<and> all_sheets \<noteq> [] \<and> with_rows all_sheets = []"
  then have e: "list_all (\<lambda>(name, df). empty_df df) all_sheets"
    by (simp add: with_rows_Nil_all_empty)
  with a show "excel_to_formatted_text lib src sel output_format prompt_template include_summary
            = (printed, Inr (format_prompt [] prompt_template))"
    by (simp add: excel_to_formatted_text_def formatted_text_of_all_empty)
  from a e show "excel_to_chunked_text lib src sel output_format chunk_size prompt_template include_summary
            = (printed, Inr [])"
    by (simp add: excel_to_chunked_text_def chunked_text_of_closed)
qed

lemmas run_defs =
  excel_to_formatted_text_def excel_to_chunked_text_def load_sheets_def workbook_def
  formatted_text_of_def chunked_text_of_def format_dispatch_def lower_def is_ascii_def lower_char_def
  empty_df_def len_def fillna_def fillna_cell_def first_nonempty_def sheet_header_def
  newline_def format_prompt_def py_replace_def placeholder_def default_template_def
  plain_lib_def plain_render_def str_nat.simps sample_df_def empty_table_def gappy_df_def
  call_local_chunk_df_def with_rows_def supported_def warning_def
  read_table_def read_cell_def kelvin_sign_def

theorem no_sheets_loaded_iff_sheet_set_empty_witness:
  "load_sheets (workbook [(''EmptySheet'', empty_table), (''Sheet1'', sample_df)]) AllSheets
     = Inr ([(''EmptySheet'', empty_table), (''Sheet1'', sample_df)], [])
   \<and> load_sheets (workbook [(''Sheet1'', sample_df)]) AllSheets
     = Inr (with_rows [(''EmptySheet'', empty_table), (''Sheet1'', sample_df)], [])
   \<and> snd (excel_to_formatted_text plain_lib
            (workbook [(''EmptySheet'', empty_table), (''Sheet1'', sample_df)]) AllSheets
            ''csv'' default_template False)
       = snd (excel_to_formatted_text plain_lib (workbook [(''Sheet1'', sample_df)]) AllSheets
            ''csv'' default_template False)
   \<and> load_sheets (workbook [(''EmptySheet'', empty_table)]) (Single ''EmptySheet'')
       = Inr ([(''EmptySheet'', empty_table)], [])
   \<and> excel_to_formatted_text plain_lib (workbook [(''EmptySheet'', empty_table)]) (Single ''EmptySheet'')
            ''csv'' default_template False
       = ([], Inr ''Analyze this data: '')"
proof -
  have a: "load_sheets (workbook [(''EmptySheet'', empty_table), (''Sheet1'', sample_df)]) AllSheets
     = Inr ([(''EmptySheet'', empty_table), (''Sheet1'', sample_df)], [])"
    by (simp add: load_sheets_def workbook_def read_table_concrete)
  have b: "with_rows [(''EmptySheet'', empty_table), (''Sheet1'', sample_df)] = [(''Sheet1'', sample_df)]"
    by (simp add: with_rows_def len_def empty_table_def sample_df_def)
  have c: "load_sheets (workbook [(''Sheet1'', sample_df)]) AllSheets
     = Inr (with_rows [(''EmptySheet'', empty_table), (''Sheet1'', sample_df)], [])"
    unfolding b by (simp add: load_sheets_def workbook_def read_table_concrete)
  have d: "load_sheets (workbook [(''EmptySheet'', empty_table)]) (Single ''EmptySheet'')
       = Inr ([(''EmptySheet'', empty_table)], [])"
    by (simp add: load_sheets_def workbook_def read_table_concrete)
  have e: "with_rows [(''EmptySheet'', empty_table)] = []"
    by (simp add: with_rows_def len_def empty_table_def)
  have f: "format_prompt [] default_template = ''Analyze this data: ''"
    by (simp add: format_prompt_def py_replace_def placeholder_def default_template_def)
  note t1 = no_sheets_loaded_iff_sheet_set_empty
      [where lib = plain_lib and output_format = "''csv''" and prompt_template = default_template
         and include_summary = False
         and src = "workbook [(''EmptySheet'', empty_table), (''Sheet1'', sample_df)]" and sel = AllSheets
         and all_sheets = "[(''EmptySheet'', empty_table), (''Sheet1'', sample_df)]"
         and printed = "[]" and printed' = "[]"
         and src' = "workbook [(''Sheet1'', sample_df)]" and sel' = AllSheets]
  note t2 = no_sheets_loaded_iff_sheet_set_empty
      [where lib = plain_lib and output_format = "''csv''" and prompt_template = default_template
         and include_summary = False
         and src = "workbook [(''EmptySheet'', empty_table)]" and sel = "Single ''EmptySheet''"
         and all_sheets = "[(''EmptySheet'', empty_table)]" and printed = "[]"]
  from t1 a b c have g: "snd (excel_to_formatted_text plain_lib
            (workbook [(''EmptySheet'', empty_table), (''Sheet1'', sample_df)]) AllSheets
            ''csv'' default_template False)
       = snd (excel_to_formatted_text plain_lib (workbook [(''Sheet1'', sample_df)]) AllSheets
            ''csv'' default_template False)"
    by simp
  from t2 d e f have h: "excel_to_formatted_text plain_lib (workbook [(''EmptySheet'', empty_table)]) (Single ''EmptySheet'')
            ''csv'' default_template False
       = ([], Inr ''Analyze this data: '')"
    by simp
  from a c g d h show ?thesis by blast
qed

text \<open>
  Claim C3, as the code has it. The format is looked at when a sheet is rendered, and
  sheets for which \<open>df.empty\<close> holds are skipped before that. With a format that is
  none of the three and a SheetSet that has a sheet with cells, \<open>excel_to_formatted_text\<close>
  fails with the error for the unsupported format and returns no text. With a loaded
  SheetSet whose sheets are all empty nothing is rendered and nothing fails:
  \<open>excel_to_formatted_text\<close> returns the template rendered with the empty text and
  \<open>excel_to_chunked_text\<close> returns no chunks.
\<close>

theorem unsupported_format_raised_at_first_sheet_with_cells:
  assumes "\<not> supported lib output_format"
    and "load_sheets src sel = Inr (all_sheets, printed)"
  shows "(\<not> list_all (\<lambda>(name, df). empty_df df) all_sheets \<longrightarrow>
            excel_to_formatted_text lib src sel output_format prompt_template include_summary
              = (printed, Inl (ErrorConverting (UnsupportedFormat output_format))))
       \<and> (all_sheets \<noteq> [] \<and> list_all (\<lambda>(name, df). empty_df df) all_sheets \<longrightarrow>
            excel_to_formatted_text lib src sel output_format prompt_template include_summary
              = (printed, Inr (format_prompt [] prompt_template))
          \<and> excel_to_chunked_text lib src sel output_format chunk_size prompt_template include_summary
              = (printed, Inr []))"
proof (intro conjI impI)
  assume ne: "\<not> list_all (\<lambda>(name, df). empty_df df) all_sheets"
  then have "all_sheets \<noteq> []" by auto
  with ne assms show "excel_to_formatted_text lib src sel output_format prompt_template include_summary
              = (printed, Inl (ErrorConverting (UnsupportedFormat output_format)))"
    by (simp add: excel_to_formatted_text_def formatted_text_of_def format_sheets_unsupported)
next
  assume e: "all_sheets \<noteq> [] \<and> list_all (\<lambda>(name, df). empty_df df) all_sheets"
  with assms show "excel_to_formatted_text lib src sel output_format prompt_template include_summary
              = (printed, Inr (format_prompt [] prompt_template))"
    by (simp add: excel_to_formatted_text_def formatted_text_of_all_empty)
  from e assms show "excel_to_chunked_text lib src sel output_format chunk_size prompt_template include_summary
              = (printed, Inr [])"
    by (simp add: excel_to_chunked_text_def chunked_text_of_closed)
qed

theorem unsupported_format_raised_at_first_sheet_with_cells_witness:
  "\<not> supported plain_lib ''invalid_format''
   \<and> load_sheets (workbook [(''Sheet1'', sample_df)]) (Names [''Sheet1''])
        = Inr ([(''Sheet1'', sample_df)], [])
   \<and> \<not> list_all (\<lambda>(name, df). empty_df df) [(''Sheet1'', sample_df)]
   \<and> excel_to_formatted_text plain_lib (workbook [(''Sheet1'', sample_df)]) (Names [''Sheet1''])
        ''invalid_format'' default_template False
       = ([], Inl (ErrorConverting (UnsupportedFormat ''invalid_format'')))
   \<and> load_sheets (workbook [(''Blank'', empty_table)]) AllSheets = Inr ([(''Blank'', empty_table)], [])
   \<and> list_all (\<lambda>(name, df). empty_df df) [(''Blank'', empty_table)]
   \<and> excel_to_chunked_text plain_lib (workbook [(''Blank'', empty_table)]) AllSheets
        ''invalid_format'' 2 default_template True
       = ([], Inr [])"
proof -
  have a: "\<not> supported plain_lib ''invalid_format''"
    by (simp add: supported_def lower_def is_ascii_def lower_char_def)
  have b: "load_sheets (workbook [(''Sheet1'', sample_df)]) (Names [''Sheet1''])
        = Inr ([(''Sheet1'', sample_df)], [])"
    by (simp add: load_sheets_def workbook_def read_table_concrete)
  have c: "\<not> list_all (\<lambda>(name, df). empty_df df) [(''Sheet1'', sample_df)]"
    by (simp add: empty_df_def sample_df_def)
  have d: "load_sheets (workbook [(''Blank'', empty_table)]) AllSheets = Inr ([(''Blank'', empty_table)], [])"
    by (simp add: load_sheets_def workbook_def read_table_concrete)
  have e: "list_all (\<lambda>(name, df). empty_df df) [(''Blank'', empty_table)]"
    by (simp add: empty_df_def empty_table_def)
  from unsupported_format_raised_at_first_sheet_with_cells
         [OF a b, where prompt_template = default_template and include_summary = False] c
  have f: "excel_to_formatted_text plain_lib (workbook [(''Sheet1'', sample_df)]) (Names [''Sheet1''])
        ''invalid_format'' default_template False
       = ([], Inl (ErrorConverting (UnsupportedFormat ''invalid_format'')))"
    by blast
  from unsupported_format_raised_at_first_sheet_with_cells
         [OF a d, where prompt_template = default_template and include_summary = True
            and chunk_size = 2] e
  have g: "excel_to_chunked_text plain_lib (workbook [(''Blank'', empty_table)]) AllSheets
        ''invalid_format'' 2 default_template True
       = ([], Inr [])"
    by simp
  from a b c d e f g show ?thesis by blast
qed

theorem unsupported_format_empty_sheets_counterexample:
  "excel_to_formatted_text plain_lib (workbook [(''EmptySheet'', empty_table)]) (Names [''EmptySheet''])
     ''invalid_format'' default_template False
   = ([], Inr ''Analyze this data: '')"
  by (simp add: run_defs)

lemma excel_to_chunked_text_sheet_with_cells:
  assumes "load_sheets src sel = Inr (all_sheets, printed)"
    and "\<not> list_all (\<lambda>(name, df). empty_df df) all_sheets"
  shows "excel_to_chunked_text lib src sel output_format chunk_size prompt_template include_summary
     = (printed, Inl (ErrorConvertingChunks (UnboundLocalError ''chunk_df'')))"
proof -
  from assms(2) have "all_sheets \<noteq> []" by auto
  with assms show ?thesis
    by (simp add: excel_to_chunked_text_def chunked_text_of_closed)
qed

text \<open>
  Claim C5, on the code. For a workbook whose sheet \<open>Sheet1\<close> is the table of four rows, the
  selection \<open>['Sheet1']\<close>, \<open>chunk_size = 2\<close> and \<open>include_summary = True\<close>, the claim asks
  for three elements: the summary and the chunks tagged 1/2 and 2/2. The operation returns
  nothing: the call \<open>chunk_df(df, chunk_size)\<close> reads the local variable that the inner loop
  binds later, and raises \<open>UnboundLocalError\<close>. The same holds for every SheetSet that has
  a sheet with cells (lemma \<open>excel_to_chunked_text_sheet_with_cells\<close>).
\<close>

theorem excel_to_chunked_text_four_rows:
  "excel_to_chunked_text plain_lib (workbook [(''Sheet1'', sample_df)]) (Names [''Sheet1''])
     ''csv'' 2 default_template True
   = ([], Inl (ErrorConvertingChunks (UnboundLocalError ''chunk_df'')))"
  by (simp add: run_defs)

lemma chunk_loop_lower:
  "supported lib output_format \<Longrightarrow>
     chunk_loop lib (lower lib output_format) prompt_template sheet_name n_chunks numbered st
       = chunk_loop lib output_format prompt_template sheet_name n_chunks numbered st"
proof (induction numbered arbitrary: st)
  case Nil
  show ?case by simp
next
  case (Cons ic numbered)
  obtain i chunk where ic: "ic = (i, chunk)" by (cases ic)
  obtain chunks local_chunk_df where st: "st = (chunks, local_chunk_df)" by (cases st)
  show ?case
    unfolding ic st using Cons.IH Cons.prems
    by (simp add: format_dispatch_lower split: sum.splits)
qed

lemma chunk_loop_Inl:
  "chunk_loop lib output_format prompt_template sheet_name n_chunks numbered st = Inl e \<Longrightarrow>
     e = UnsupportedFormat output_format \<and> \<not> supported lib output_format"
proof (induction numbered arbitrary: st)
  case Nil
  then show ?case by simp
next
  case (Cons ic numbered)
  obtain i chunk where ic: "ic = (i, chunk)" by (cases ic)
  obtain chunks local_chunk_df where st: "st = (chunks, local_chunk_df)" by (cases st)
  show ?case
  proof (cases "format_dispatch lib output_format chunk")
    case (Inl e')
    with Cons.prems ic st have "e = e'" by simp
    with format_dispatch_Inl[OF Inl] show ?thesis by simp
  next
    case (Inr formatted_chunk)
    with Cons.prems ic st show ?thesis by (auto dest: Cons.IH)
  qed
qed

lemma chunk_loop_supported:
  "supported lib output_format \<Longrightarrow>
     \<exists>st'. chunk_loop lib output_format prompt_template sheet_name n_chunks numbered st = Inr st'"
  using chunk_loop_Inl[of lib output_format prompt_template sheet_name n_chunks numbered st]
  by (cases "chunk_loop lib output_format prompt_template sheet_name n_chunks numbered st") auto

lemma chunk_loop_unsupported:
  assumes "\<not> supported lib output_format" and "numbered \<noteq> []"
  shows "chunk_loop lib output_format prompt_template sheet_name n_chunks numbered st
     = Inl (UnsupportedFormat output_format)"
proof -
  obtain i chunk rest where n: "numbered = (i, chunk) # rest"
    using assms(2) by (cases numbered) auto
  obtain chunks local_chunk_df where st: "st = (chunks, local_chunk_df)" by (cases st)
  show ?thesis unfolding n st using assms(1) by (simp add: format_dispatch_unsupported)
qed

lemma supported_any_case:
  "supported lib ''csv''" "supported lib ''CSV''" "supported lib ''Markdown''" "supported lib ''json''"
  by (simp_all add: supported_def lower_def is_ascii_def lower_char_def)

text \<open>
  Claim C10. The format is matched through its lowercasing, whatever the lowercasing of a
  text outside ASCII is. For a format whose lowercasing is one of the three names, each
  operation returns exactly what it returns for the lowercase name, and so does the loop
  of \<open>excel_to_chunked_text\<close> that renders the chunks of a sheet, which then renders every
  chunk. \<open>excel_to_formatted_text\<close> and that loop fail with the error for an unsupported
  format only for a format whose lowercasing is none of the three, and the loop does fail
  for such a format as soon as it has a chunk to render; \<open>excel_to_chunked_text\<close> as a
  whole never fails with that error.
\<close>

theorem format_matched_case_insensitively:
  "(supported lib output_format \<longrightarrow>
      excel_to_formatted_text lib src sel output_format prompt_template include_summary
        = excel_to_formatted_text lib src sel (lower lib output_format) prompt_template include_summary
    \<and> excel_to_chunked_text lib src sel output_format chunk_size prompt_template include_summary
        = excel_to_chunked_text lib src sel (lower lib output_format) chunk_size prompt_template include_summary
    \<and> chunk_loop lib output_format prompt_template sheet_name n_chunks numbered st
        = chunk_loop lib (lower lib output_format) prompt_template sheet_name n_chunks numbered st
    \<and> (\<exists>st'. chunk_loop lib output_format prompt_template sheet_name n_chunks numbered st = Inr st'))
   \<and> (snd (excel_to_formatted_text lib src sel output_format prompt_template include_summary)
        = Inl (ErrorConverting (UnsupportedFormat f)) \<longrightarrow> \<not> supported lib output_format \<and> f = output_format)
   \<and> snd (excel_to_chunked_text lib src sel output_format chunk_size prompt_template include_summary)
        \<noteq> Inl (ErrorConvertingChunks (UnsupportedFormat f))
   \<and> (chunk_loop lib output_format prompt_template sheet_name n_chunks numbered st = Inl e \<longrightarrow>
        e = UnsupportedFormat output_format \<and> \<not> supported lib output_format)
   \<and> (\<not> supported lib output_format \<and> numbered \<noteq> [] \<longrightarrow>
        chunk_loop lib output_format prompt_template sheet_name n_chunks numbered st
          = Inl (UnsupportedFormat output_format))
   \<and> supported lib ''CSV'' \<and> supported lib ''Markdown'' \<and> supported lib ''json''"
proof (intro conjI impI)
  assume s: "supported lib output_format"
  show "excel_to_formatted_text lib src sel output_format prompt_template include_summary
        = excel_to_formatted_text lib src sel (lower lib output_format) prompt_template include_summary"
    unfolding excel_to_formatted_text_def formatted_text_of_def format_sheets_lower[OF s] ..
  show "excel_to_chunked_text lib src sel output_format chunk_size prompt_template include_summary
        = excel_to_chunked_text lib src sel (lower lib output_format) chunk_size prompt_template include_summary"
    unfolding excel_to_chunked_text_def chunked_text_of_closed ..
  show "chunk_loop lib output_format prompt_template sheet_name n_chunks numbered st
        = chunk_loop lib (lower lib output_format) prompt_template sheet_name n_chunks numbered st"
    by (simp add: chunk_loop_lower[OF s])
  show "\<exists>st'. chunk_loop lib output_format prompt_template sheet_name n_chunks numbered st = Inr st'"
    by (rule chunk_loop_supported[OF s])
next
  assume a: "snd (excel_to_formatted_text lib src sel output_format prompt_template include_summary)
        = Inl (ErrorConverting (UnsupportedFormat f))"
  then obtain all_sheets where
    "formatted_text_of lib all_sheets output_format prompt_template include_summary = Inl (UnsupportedFormat f)"
    using load_sheets_Inl[of src sel]
    by (auto simp: excel_to_formatted_text_def split: sum.splits prod.splits)
  then have "format_sheets lib output_format all_sheets [] = Inl (UnsupportedFormat f)"
    by (auto simp: formatted_text_of_def Let_def split: if_splits sum.splits)
  from format_sheets_Inl[OF this] show "\<not> supported lib output_format" "f = output_format" by simp_all
next
  show "snd (excel_to_chunked_text lib src sel output_format chunk_size prompt_template include_summary)
        \<noteq> Inl (ErrorConvertingChunks (UnsupportedFormat f))"
    using load_sheets_Inl[of src sel]
    by (auto simp: excel_to_chunked_text_def chunked_text_of_closed split: sum.splits prod.splits)
next
  assume "chunk_loop lib output_format prompt_template sheet_name n_chunks numbered st = Inl e"
  from chunk_loop_Inl[OF this]
  show "e = UnsupportedFormat output_format" "\<not> supported lib output_format" by simp_all
next
  assume "\<not> supported lib output_format \<and> numbered \<noteq> []"
  then show "chunk_loop lib output_format prompt_template sheet_name n_chunks numbered st
          = Inl (UnsupportedFormat output_format)"
    by (simp add: chunk_loop_unsupported)
qed (simp_all add: supported_any_case)

theorem format_matched_case_insensitively_witness:
  "supported plain_lib ''CSV'' \<and> lower plain_lib ''CSV'' = ''csv''
   \<and> excel_to_formatted_text plain_lib (workbook [(''Sheet1'', sample_df)]) (Single ''Sheet1'')
        ''CSV'' default_template False
      = excel_to_formatted_text plain_lib (workbook [(''Sheet1'', sample_df)]) (Single ''Sheet1'')
        ''csv'' default_template False
   \<and> excel_to_chunked_text plain_lib (workbook [(''Sheet1'', sample_df)]) (Single ''Sheet1'')
        ''CSV'' 2 default_template False
      = excel_to_chunked_text plain_lib (workbook [(''Sheet1'', sample_df)]) (Single ''Sheet1'')
        ''csv'' 2 default_template False
   \<and> chunk_loop plain_lib ''CSV'' default_template ''Sheet1'' 2
        (enumerate 0 [iloc sample_df 0 2, iloc sample_df 2 4]) ([], None)
      = Inr ([format_prompt (chunk_header ''Sheet1'' 0 2 @ to_csv plain_lib (iloc sample_df 0 2)) default_template,
              format_prompt (chunk_header ''Sheet1'' 1 2 @ to_csv plain_lib (iloc sample_df 2 4)) default_template],
             Some (iloc sample_df 2 4))
   \<and> supported plain_lib (''mar'' @ kelvin_sign @ ''down'')
   \<and> lower plain_lib (''mar'' @ kelvin_sign @ ''down'') = ''markdown''
   \<and> excel_to_formatted_text plain_lib (workbook [(''Sheet1'', sample_df)]) (Single ''Sheet1'')
        (''mar'' @ kelvin_sign @ ''down'') default_template False
      = excel_to_formatted_text plain_lib (workbook [(''Sheet1'', sample_df)]) (Single ''Sheet1'')
        ''markdown'' default_template False
   \<and> snd (excel_to_formatted_text plain_lib (workbook [(''Sheet1'', sample_df)]) (Single ''Sheet1'')
        ''xml'' default_template False) = Inl (ErrorConverting (UnsupportedFormat ''xml''))
   \<and> \<not> supported plain_lib ''xml''
   \<and> chunk_loop plain_lib ''xml'' default_template ''Sheet1'' 2
        (enumerate 0 [iloc sample_df 0 2, iloc sample_df 2 4]) ([], None)
      = Inl (UnsupportedFormat ''xml'')"
proof -
  have a: "supported plain_lib ''CSV''" "lower plain_lib ''CSV'' = ''csv''"
    by (simp_all add: supported_def lower_def is_ascii_def lower_char_def)
  have k: "lower plain_lib (''mar'' @ kelvin_sign @ ''down'') = ''markdown''"
    by (simp add: lower_def is_ascii_def lower_char_def kelvin_sign_def plain_lib_def py_replace_def)
  have k': "supported plain_lib (''mar'' @ kelvin_sign @ ''down'')"
    unfolding supported_def k by simp
  have b: "snd (excel_to_formatted_text plain_lib (workbook [(''Sheet1'', sample_df)]) (Single ''Sheet1'')
        ''xml'' default_template False) = Inl (ErrorConverting (UnsupportedFormat ''xml''))"
    by (simp add: run_defs)
  have n: "enumerate 0 [iloc sample_df 0 2, iloc sample_df 2 4] \<noteq> []" by simp
  note t = format_matched_case_insensitively
     [where lib = plain_lib and src = "workbook [(''Sheet1'', sample_df)]" and sel = "Single ''Sheet1''"
        and prompt_template = default_template and include_summary = False and chunk_size = 2
        and sheet_name = "''Sheet1''" and n_chunks = 2
        and numbered = "enumerate 0 [iloc sample_df 0 2, iloc sample_df 2 4]" and st = "([], None)"]
  note upper = t[where output_format = "''CSV''", THEN conjunct1, THEN mp, OF a(1), unfolded a(2)]
  note c = upper[THEN conjunct1]
  note c2 = upper[THEN conjunct2, THEN conjunct1]
  note c3 = upper[THEN conjunct2, THEN conjunct2, THEN conjunct1]
  have "chunk_loop plain_lib ''csv'' default_template ''Sheet1'' 2
        (enumerate 0 [iloc sample_df 0 2, iloc sample_df 2 4]) ([], None)
      = Inr ([format_prompt (chunk_header ''Sheet1'' 0 2 @ to_csv plain_lib (iloc sample_df 0 2)) default_template,
              format_prompt (chunk_header ''Sheet1'' 1 2 @ to_csv plain_lib (iloc sample_df 2 4)) default_template],
             Some (iloc sample_df 2 4))"
    by (simp add: format_dispatch_def lower_names)
  then have c4: "chunk_loop plain_lib ''CSV'' default_template ''Sheet1'' 2
        (enumerate 0 [iloc sample_df 0 2, iloc sample_df 2 4]) ([], None)
      = Inr ([format_prompt (chunk_header ''Sheet1'' 0 2 @ to_csv plain_lib (iloc sample_df 0 2)) default_template,
              format_prompt (chunk_header ''Sheet1'' 1 2 @ to_csv plain_lib (iloc sample_df 2 4)) default_template],
             Some (iloc sample_df 2 4))"
    by (simp only: c3)
  note d = t[where output_format = "''mar'' @ kelvin_sign @ ''down''", THEN conjunct1, THEN mp, OF k',
             THEN conjunct1, unfolded k]
  note e = t[where output_format = "''xml''" and f = "''xml''", THEN conjunct2, THEN conjunct1, THEN mp,
             OF b, THEN conjunct1]
  note g = t[where output_format = "''xml''", THEN conjunct2, THEN conjunct2, THEN conjunct2,
             THEN conjunct2, THEN conjunct1, THEN mp, OF conjI[OF e n]]
  show ?thesis
    by (rule conjI a c c2 c4 k k' d b e g)+
qed

lemma load_names_printed:
  "snd (load_names src names (acc, out)) =
     out @ concat (map (\<lambda>name. case read_sheet src name of Inl e \<Rightarrow> [warning name e] | Inr df \<Rightarrow> []) names)"
  by (induction names arbitrary: acc out) (auto split: sum.splits)

lemma load_names_map_of:
  "map_of (fst (load_names src names (acc, out))) name =
     (if name \<in> set names
      then (case read_sheet src name of Inr df \<Rightarrow> Some df | Inl e \<Rightarrow> map_of acc name)
      else map_of acc name)"
  by (induction names arbitrary: acc out) (auto simp: update_conv' split: sum.splits)

text \<open>
  Loading with a list of names never fails. The SheetSet holds exactly the names of the
  list that could be read, each with the table read for it, and one warning is printed
  for each name that could not be read, in the order of the list. For one readable and
  one unreadable name, in either order, only the readable sheet is loaded and the warning
  is printed; each operation then returns what it returns when the readable name is
  selected alone, which is never the error for no sheets, and \<open>excel_to_formatted_text\<close>
  with a supported format returns a text.
\<close>

lemma list_selector_loading:
  "load_sheets src (Names names) = Inr (load_names src names ([], []))
   \<and> map_of (fst (load_names src names ([], []))) name
       = (if name \<in> set names
          then (case read_sheet src name of Inr df \<Rightarrow> Some df | Inl e \<Rightarrow> None)
          else None)
   \<and> snd (load_names src names ([], []))
       = concat (map (\<lambda>name. case read_sheet src name of Inl e \<Rightarrow> [warning name e] | Inr df \<Rightarrow> []) names)
   \<and> (read_sheet src good = Inr df \<and> read_sheet src bad = Inl e \<longrightarrow>
        load_sheets src (Names [good, bad]) = Inr ([(good, df)], [warning bad e])
      \<and> load_sheets src (Names [bad, good]) = Inr ([(good, df)], [warning bad e])
      \<and> excel_to_formatted_text lib src (Names [good, bad]) output_format prompt_template include_summary
          = ([warning bad e],
             snd (excel_to_formatted_text lib src (Names [good]) output_format prompt_template include_summary))
      \<and> excel_to_chunked_text lib src (Names [good, bad]) output_format chunk_size prompt_template include_summary
          = ([warning bad e],
             snd (excel_to_chunked_text lib src (Names [good]) output_format chunk_size prompt_template include_summary))
      \<and> snd (excel_to_formatted_text lib src (Names [good, bad]) output_format prompt_template include_summary)
          \<noteq> Inl (ErrorConverting NoSheetsRead)
      \<and> snd (excel_to_chunked_text lib src (Names [good, bad]) output_format chunk_size prompt_template include_summary)
          \<noteq> Inl (ErrorConvertingChunks NoSheetsRead)
      \<and> (supported lib output_format \<longrightarrow>
           (\<exists>out. snd (excel_to_formatted_text lib src (Names [good, bad]) output_format prompt_template include_summary)
                   = Inr out)))"
proof (intro conjI impI)
  show "load_sheets src (Names names) = Inr (load_names src names ([], []))"
    by (simp add: load_sheets_def)
  show "map_of (fst (load_names src names ([], []))) name
       = (if name \<in> set names
          then (case read_sheet src name of Inr df \<Rightarrow> Some df | Inl e \<Rightarrow> None)
          else None)"
    by (simp add: load_names_map_of split: sum.splits)
  show "snd (load_names src names ([], []))
       = concat (map (\<lambda>name. case read_sheet src name of Inl e \<Rightarrow> [warning name e] | Inr df \<Rightarrow> []) names)"
    by (simp add: load_names_printed)
next
  assume a: "read_sheet src good = Inr df \<and> read_sheet src bad = Inl e"
  show l1: "load_sheets src (Names [good, bad]) = Inr ([(good, df)], [warning bad e])"
    using a by (simp add: load_sheets_def)
  show l2: "load_sheets src (Names [bad, good]) = Inr ([(good, df)], [warning bad e])"
    using a by (simp add: load_sheets_def)
  have l3: "load_sheets src (Names [good]) = Inr ([(good, df)], [])"
    using a by (simp add: load_sheets_def)
  show "excel_to_formatted_text lib src (Names [good, bad]) output_format prompt_template include_summary
          = ([warning bad e],
             snd (excel_to_formatted_text lib src (Names [good]) output_format prompt_template include_summary))"
    by (simp add: excel_to_formatted_text_def l1 l3)
  show "excel_to_chunked_text lib src (Names [good, bad]) output_format chunk_size prompt_template include_summary
          = ([warning bad e],
             snd (excel_to_chunked_text lib src (Names [good]) output_format chunk_size prompt_template include_summary))"
    by (simp add: excel_to_chunked_text_def l1 l3)
  show "snd (excel_to_formatted_text lib src (Names [good, bad]) output_format prompt_template include_summary)
          \<noteq> Inl (ErrorConverting NoSheetsRead)"
    by (simp add: formatted_result_NoSheets l1)
  show "snd (excel_to_chunked_text lib src (Names [good, bad]) output_format chunk_size prompt_template include_summary)
          \<noteq> Inl (ErrorConvertingChunks NoSheetsRead)"
    by (simp add: chunked_result_NoSheets l1)
  assume s: "supported lib output_format"
  obtain out where "format_sheets lib output_format [(good, df)] [] = Inr out"
    using format_sheets_supported[OF s] by blast
  then show "\<exists>out. snd (excel_to_formatted_text lib src (Names [good, bad]) output_format prompt_template include_summary)
                   = Inr out"
    by (simp add: excel_to_formatted_text_def l1 formatted_text_of_def Let_def)
qed

text \<open>
  Claim C7, on the code. For the workbook of the tests and the selection
  \<open>['Sheet1', 'Missing']\<close>, the loading does what the claim says: only \<open>Sheet1\<close> is loaded
  and one warning is printed for \<open>Missing\<close>. The claim then asks that the call does not
  fail. \<open>excel_to_formatted_text\<close> returns a text; \<open>excel_to_chunked_text\<close> fails: with the
  one sheet loaded it reaches the call \<open>chunk_df(df, chunk_size)\<close>, which reads the local
  variable that the inner loop binds later, and raises \<open>UnboundLocalError\<close>.
\<close>

theorem excel_to_chunked_text_valid_and_missing_name:
  "load_sheets (workbook [(''Sheet1'', sample_df)]) (Names [''Sheet1'', ''Missing''])
     = Inr ([(''Sheet1'', sample_df)],
            [warning ''Missing'' (''Worksheet named '' @ [CHR 0x27] @ ''Missing'' @ [CHR 0x27] @ '' not found'')])
   \<and> excel_to_chunked_text plain_lib (workbook [(''Sheet1'', sample_df)]) (Names [''Sheet1'', ''Missing''])
       ''csv'' 2 default_template False
     = ([warning ''Missing'' (''Worksheet named '' @ [CHR 0x27] @ ''Missing'' @ [CHR 0x27] @ '' not found'')],
        Inl (ErrorConvertingChunks (UnboundLocalError ''chunk_df'')))
   \<and> (\<exists>out. excel_to_formatted_text plain_lib (workbook [(''Sheet1'', sample_df)])
               (Names [''Sheet1'', ''Missing'']) ''csv'' default_template False
     = ([warning ''Missing'' (''Worksheet named '' @ [CHR 0x27] @ ''Missing'' @ [CHR 0x27] @ '' not found'')],
        Inr out))"
proof -
  let ?wb = "workbook [(''Sheet1'', sample_df)]"
  let ?msg = "''Worksheet named '' @ [CHR 0x27] @ ''Missing'' @ [CHR 0x27] @ '' not found''"
  have a: "read_sheet ?wb ''Sheet1'' = Inr sample_df"
    by (simp add: workbook_def read_table_concrete)
  have b: "read_sheet ?wb ''Missing'' = Inl ?msg"
    by (simp add: workbook_def)
  note l = list_selector_loading
     [where src = ?wb and good = "''Sheet1''" and bad = "''Missing''" and df = sample_df and e = ?msg
        and lib = plain_lib and output_format = "''csv''" and prompt_template = default_template
        and include_summary = False,
      THEN conjunct2, THEN conjunct2, THEN conjunct2, THEN mp, OF conjI[OF a b]]
  note load = l[THEN conjunct1]
  have ne: "\<not> list_all (\<lambda>(name, df). empty_df df) [(''Sheet1'', sample_df)]"
    by (simp add: empty_df_def sample_df_def)
  note chunked = excel_to_chunked_text_sheet_with_cells
     [OF load ne, where lib = plain_lib and output_format = "''csv''" and chunk_size = 2
        and prompt_template = default_template and include_summary = False]
  note eq = l[THEN conjunct2, THEN conjunct2, THEN conjunct1]
  have s: "supported plain_lib ''csv''" by (rule supported_any_case)
  from l s obtain out where
    out: "snd (excel_to_formatted_text plain_lib ?wb (Names [''Sheet1'', ''Missing'']) ''csv''
                 default_template False) = Inr out"
    by blast
  have "fst (excel_to_formatted_text plain_lib ?wb (Names [''Sheet1'', ''Missing'']) ''csv''
                 default_template False) = [warning ''Missing'' ?msg]"
    by (subst eq) simp
  with out have "excel_to_formatted_text plain_lib ?wb (Names [''Sheet1'', ''Missing'']) ''csv''
                 default_template False = ([warning ''Missing'' ?msg], Inr out)"
    by (simp add: prod_eq_iff)
  then have formatted: "\<exists>out. excel_to_formatted_text plain_lib ?wb (Names [''Sheet1'', ''Missing'']) ''csv''
                 default_template False = ([warning ''Missing'' ?msg], Inr out)"
    by (rule exI)
  show ?thesis
    by (rule conjI load chunked formatted)+
qed

















end
